theory Spec2Isabelle
  imports Main "HOL-Library.Word"
begin

unbundle bit_operations_syntax

section \<open>Python text primitives\<close>

text \<open>
  In the stream demultiplexer and the tool-call code, Python \<open>str\<close> values are modelled
  as \<open>string\<close>: a list of characters, one per code point, for code points below 256.
  The classification of characters (\<open>str.isspace\<close>, \<open>str.lower\<close>, the \<open>\w\<close>
  class of \<open>re\<close>) is the one Python gives to these code points. The request signer is
  modelled on all code points.
\<close>

definition isspace :: "char \<Rightarrow> bool" where
  "isspace c =
     (let n = (of_char c :: nat)
      in (9 \<le> n \<and> n \<le> 13) \<or> (28 \<le> n \<and> n \<le> 32) \<or> n = 133 \<or> n = 160)"

definition ascii_upper :: string where
  "ascii_upper = ''ABCDEFGHIJKLMNOPQRSTUVWXYZ''"

definition ascii_lower :: string where
  "ascii_lower = ''abcdefghijklmnopqrstuvwxyz''"

definition ascii_digits :: string where
  "ascii_digits = ''0123456789''"

definition latin_upper :: string where
  "latin_upper =
     [CHR 0xC0, CHR 0xC1, CHR 0xC2, CHR 0xC3, CHR 0xC4, CHR 0xC5, CHR 0xC6, CHR 0xC7,
      CHR 0xC8, CHR 0xC9, CHR 0xCA, CHR 0xCB, CHR 0xCC, CHR 0xCD, CHR 0xCE, CHR 0xCF,
      CHR 0xD0, CHR 0xD1, CHR 0xD2, CHR 0xD3, CHR 0xD4, CHR 0xD5, CHR 0xD6,
      CHR 0xD8, CHR 0xD9, CHR 0xDA, CHR 0xDB, CHR 0xDC, CHR 0xDD, CHR 0xDE]"

definition latin_lower :: string where
  "latin_lower =
     [CHR 0xE0, CHR 0xE1, CHR 0xE2, CHR 0xE3, CHR 0xE4, CHR 0xE5, CHR 0xE6, CHR 0xE7,
      CHR 0xE8, CHR 0xE9, CHR 0xEA, CHR 0xEB, CHR 0xEC, CHR 0xED, CHR 0xEE, CHR 0xEF,
      CHR 0xF0, CHR 0xF1, CHR 0xF2, CHR 0xF3, CHR 0xF4, CHR 0xF5, CHR 0xF6,
      CHR 0xF8, CHR 0xF9, CHR 0xFA, CHR 0xFB, CHR 0xFC, CHR 0xFD, CHR 0xFE]"

definition lower_char :: "char \<Rightarrow> char" where
  "lower_char c =
     (case map_of (zip (ascii_upper @ latin_upper) (ascii_lower @ latin_lower)) c of
        Some l \<Rightarrow> l
      | None \<Rightarrow> c)"

definition lower :: "string \<Rightarrow> string" where
  "lower s = map lower_char s"

definition is_ascii_alnum :: "char \<Rightarrow> bool" where
  "is_ascii_alnum c = (c \<in> set (ascii_upper @ ascii_lower @ ascii_digits))"

text \<open>The \<open>\w\<close> class of \<open>re\<close> on \<open>str\<close> patterns: alphanumeric code points and \<open>_\<close>.\<close>

definition is_word :: "char \<Rightarrow> bool" where
  "is_word c =
     (is_ascii_alnum c \<or> c = CHR ''_'' \<or> c \<in> set (latin_upper @ latin_lower)
      \<or> c \<in> set [CHR 0xAA, CHR 0xB2, CHR 0xB3, CHR 0xB5, CHR 0xB9, CHR 0xBA,
                   CHR 0xBC, CHR 0xBD, CHR 0xBE, CHR 0xDF, CHR 0xFF])"

definition strip :: "string \<Rightarrow> string" where
  "strip s = rev (dropWhile isspace (rev (dropWhile isspace s)))"

definition rstrip :: "string \<Rightarrow> string" where
  "rstrip s = rev (dropWhile isspace (rev s))"

definition strip_chars :: "string \<Rightarrow> string \<Rightarrow> string" where
  "strip_chars cs s =
     rev (dropWhile (\<lambda>c. c \<in> set cs) (rev (dropWhile (\<lambda>c. c \<in> set cs) s)))"

definition rstrip_chars :: "string \<Rightarrow> string \<Rightarrow> string" where
  "rstrip_chars cs s = rev (dropWhile (\<lambda>c. c \<in> set cs) (rev s))"

definition startswith :: "string \<Rightarrow> string \<Rightarrow> bool" where
  "startswith s p = (take (length p) s = p)"

definition endswith :: "string \<Rightarrow> string \<Rightarrow> bool" where
  "endswith s p = (length p \<le> length s \<and> drop (length s - length p) s = p)"

text \<open>\<open>sub in s\<close>\<close>

fun contains :: "string \<Rightarrow> string \<Rightarrow> bool" where
  "contains [] sub = (sub = [])"
| "contains (c # cs) sub = (startswith (c # cs) sub \<or> contains cs sub)"

text \<open>\<open>s.find(sub)\<close>, with \<open>None\<close> for Python's \<open>-1\<close>.\<close>

fun find_str :: "string \<Rightarrow> string \<Rightarrow> nat option" where
  "find_str [] sub = (if sub = [] then Some 0 else None)"
| "find_str (c # cs) sub =
     (if startswith (c # cs) sub then Some 0 else map_option Suc (find_str cs sub))"

text \<open>\<open>s.rfind(sub)\<close>: the last index at which \<open>sub\<close> starts.\<close>

fun rfind :: "string \<Rightarrow> string \<Rightarrow> nat option" where
  "rfind [] sub = (if sub = [] then Some 0 else None)"
| "rfind (c # cs) sub =
     (case rfind cs sub of
        Some i \<Rightarrow> Some (Suc i)
      | None \<Rightarrow> if startswith (c # cs) sub then Some 0 else None)"

text \<open>\<open>s.replace(old, new)\<close> for a non-empty \<open>old\<close>: occurrences are replaced left to
  right without overlap. Every call in the program passes a non-empty \<open>old\<close>.\<close>

fun replace :: "string \<Rightarrow> string \<Rightarrow> string \<Rightarrow> string" where
  "replace [] old new = []"
| "replace (c # cs) old new =
     (if old \<noteq> [] \<and> startswith (c # cs) old
      then new @ replace (drop (length old - 1) cs) old new
      else c # replace cs old new)"

text \<open>\<open>s.split(sep)\<close> for a non-empty \<open>sep\<close>; \<open>split_acc\<close> carries the piece being
  read, reversed.\<close>

fun split_acc :: "string \<Rightarrow> string \<Rightarrow> string \<Rightarrow> string list" where
  "split_acc acc [] sep = [rev acc]"
| "split_acc acc (c # cs) sep =
     (if sep \<noteq> [] \<and> startswith (c # cs) sep
      then rev acc # split_acc [] (drop (length sep - 1) cs) sep
      else split_acc (c # acc) cs sep)"

definition split :: "string \<Rightarrow> string \<Rightarrow> string list" where
  "split s sep = split_acc [] s sep"

text \<open>\<open>sep.join(xs)\<close>\<close>

fun join :: "'a list \<Rightarrow> 'a list list \<Rightarrow> 'a list" where
  "join sep [] = []"
| "join sep [x] = x"
| "join sep (x # y # ys) = x @ sep @ join sep (y # ys)"

text \<open>\<open>s[a:b]\<close> for indices within range.\<close>

definition substr :: "string \<Rightarrow> nat \<Rightarrow> nat \<Rightarrow> string" where
  "substr s a b = take (b - a) (drop a s)"

text \<open>\<open>str(n)\<close> for an integer.\<close>

definition digit_char :: "nat \<Rightarrow> char" where
  "digit_char d = ascii_digits ! d"

function str_nat :: "nat \<Rightarrow> string" where
  "str_nat n = (if n < 10 then [digit_char n] else str_nat (n div 10) @ [digit_char (n mod 10)])"
  by pat_completeness auto
termination
  by (relation "measure id") auto

declare str_nat.simps [simp del]

definition str_int :: "int \<Rightarrow> string" where
  "str_int i = (if i < 0 then CHR ''-'' # str_nat (nat (- i)) else str_nat (nat i))"

text \<open>\<open>max(xs, key=f)\<close> for a non-empty list: the first element whose key is largest.\<close>

fun max_by :: "('a \<Rightarrow> int) \<Rightarrow> 'a \<Rightarrow> 'a list \<Rightarrow> 'a" where
  "max_by f best [] = best"
| "max_by f best (x # xs) = (if f best < f x then max_by f x xs else max_by f best xs)"

section \<open>Regular expressions\<close>

text \<open>
  The fragment of Python's \<open>re\<close> the program uses, with its backtracking semantics:
  alternatives are tried left to right, repetition is greedy, and the first way of matching
  that lets the rest of the pattern match is the one taken.
\<close>

datatype re =
    Eps
  | Cls "char \<Rightarrow> bool"
  | Seq re re
  | Alt re re
  | Opt re
  | Rep "char \<Rightarrow> bool" nat "nat option"
  | Grp nat re
  | Eos
  | Wordb

type_synonym caps = "nat \<rightharpoonup> nat \<times> nat"

fun try_down :: "nat \<Rightarrow> nat \<Rightarrow> (nat \<Rightarrow> 'a option) \<Rightarrow> 'a option" where
  "try_down lo 0 k = k lo"
| "try_down lo (Suc d) k =
     (case k (lo + Suc d) of Some r \<Rightarrow> Some r | None \<Rightarrow> try_down lo d k)"

definition word_at :: "string \<Rightarrow> nat \<Rightarrow> bool" where
  "word_at s i = (i < length s \<and> is_word (s ! i))"

fun rmatch :: "re \<Rightarrow> string \<Rightarrow> nat \<Rightarrow> caps \<Rightarrow> (nat \<Rightarrow> caps \<Rightarrow> (nat \<times> caps) option)
    \<Rightarrow> (nat \<times> caps) option" where
  "rmatch Eps s i c k = k i c"
| "rmatch (Cls p) s i c k = (if i < length s \<and> p (s ! i) then k (Suc i) c else None)"
| "rmatch (Seq a b) s i c k = rmatch a s i c (\<lambda>j c'. rmatch b s j c' k)"
| "rmatch (Alt a b) s i c k =
     (case rmatch a s i c k of Some r \<Rightarrow> Some r | None \<Rightarrow> rmatch b s i c k)"
| "rmatch (Opt a) s i c k =
     (case rmatch a s i c k of Some r \<Rightarrow> Some r | None \<Rightarrow> k i c)"
| "rmatch (Rep p mn mx) s i c k =
     (let run = length (takeWhile p (drop i s));
          n = (case mx of None \<Rightarrow> run | Some x \<Rightarrow> min run x)
      in if n < mn then None else try_down (i + mn) (n - mn) (\<lambda>j. k j c))"
| "rmatch (Grp g a) s i c k = rmatch a s i c (\<lambda>j c'. k j (c'(g \<mapsto> (i, j))))"
| "rmatch Eos s i c k =
     (if i = length s \<or> (Suc i = length s \<and> s ! i = CHR 0x0A) then k i c else None)"
| "rmatch Wordb s i c k =
     (if (0 < i \<and> word_at s (i - 1)) \<noteq> word_at s i then k i c else None)"

definition match_at :: "re \<Rightarrow> string \<Rightarrow> nat \<Rightarrow> (nat \<times> caps) option" where
  "match_at r s i = rmatch r s i Map.empty (\<lambda>j c. Some (j, c))"

text \<open>\<open>re.search\<close> from position \<open>i\<close>, trying the \<open>n\<close> positions after it too: the
  leftmost start that matches, with its end and groups.\<close>

fun search_aux :: "re \<Rightarrow> string \<Rightarrow> nat \<Rightarrow> nat \<Rightarrow> (nat \<times> nat \<times> caps) option" where
  "search_aux r s i 0 = map_option (\<lambda>(j, c). (i, j, c)) (match_at r s i)"
| "search_aux r s i (Suc n) =
     (case match_at r s i of
        Some (j, c) \<Rightarrow> Some (i, j, c)
      | None \<Rightarrow> search_aux r s (Suc i) n)"

definition search_from :: "re \<Rightarrow> string \<Rightarrow> nat \<Rightarrow> (nat \<times> nat \<times> caps) option" where
  "search_from r s pos = (if length s < pos then None else search_aux r s pos (length s - pos))"

definition search :: "re \<Rightarrow> string \<Rightarrow> (nat \<times> nat \<times> caps) option" where
  "search r s = search_from r s 0"

text \<open>\<open>re.finditer\<close>: the successive non-overlapping matches. The patterns of the program
  match no empty string, so each match ends after the position it was looked for from.\<close>

function finditer_from :: "re \<Rightarrow> string \<Rightarrow> nat \<Rightarrow> (nat \<times> nat \<times> caps) list" where
  "finditer_from r s pos =
     (if length s < pos then []
      else case search_from r s pos of
             None \<Rightarrow> []
           | Some (st, en, c) \<Rightarrow> (st, en, c) # finditer_from r s (max en (Suc pos)))"
  by pat_completeness auto
termination
  by (relation "measure (\<lambda>(r, s, pos). Suc (length s) - pos)") auto

declare finditer_from.simps [simp del]

definition finditer :: "re \<Rightarrow> string \<Rightarrow> (nat \<times> nat \<times> caps) list" where
  "finditer r s = finditer_from r s 0"

text \<open>The text of group \<open>g\<close> of a match, \<open>None\<close> when the group took no part.\<close>

definition group_text :: "string \<Rightarrow> caps \<Rightarrow> nat \<Rightarrow> string option" where
  "group_text s c g = map_option (\<lambda>(a, b). substr s a b) (c g)"

text \<open>\<open>re.split\<close> for a pattern that is one capturing group: the pieces between the
  matches, with the matched separators between them.\<close>

fun split_pieces :: "string \<Rightarrow> nat \<Rightarrow> (nat \<times> nat \<times> caps) list \<Rightarrow> string list" where
  "split_pieces s cur [] = [drop cur s]"
| "split_pieces s cur ((st, en, c) # ms) =
     substr s cur st # substr s st en # split_pieces s en ms"

definition re_split :: "re \<Rightarrow> string \<Rightarrow> string list" where
  "re_split r s = split_pieces s 0 (finditer r s)"

text \<open>A literal string as a pattern.\<close>

fun lit :: "string \<Rightarrow> re" where
  "lit [] = Eps"
| "lit (c # cs) = Seq (Cls (\<lambda>x. x = c)) (lit cs)"

section \<open>JSON values and \<open>json.loads\<close>\<close>

text \<open>
  A decoded JSON document. An object keeps its keys in insertion order, as a Python
  \<open>dict\<close> does. A float is kept as the decimal \<open>m * 10 ^ e\<close> it was written as.
\<close>

datatype pyfloat = Dec int int | NaN | Inf bool

datatype json =
    JNull
  | JBool bool
  | JInt int
  | JFloat pyfloat
  | JStr string
  | JArr "json list"
  | JObj "(string \<times> json) list"

type_synonym dict = "(string \<times> json) list"

text \<open>\<open>d[k] = v\<close>: a key already present keeps its place.\<close>

fun dict_set :: "(string \<times> 'v) list \<Rightarrow> string \<Rightarrow> 'v \<Rightarrow> (string \<times> 'v) list" where
  "dict_set [] k v = [(k, v)]"
| "dict_set ((k', v') # d) k v = (if k' = k then (k, v) # d else (k', v') # dict_set d k v)"

text \<open>\<open>d.get(k)\<close>\<close>

definition dict_get :: "(string \<times> 'v) list \<Rightarrow> string \<Rightarrow> 'v option" where
  "dict_get d k = map_of d k"

text \<open>\<open>k in d\<close>\<close>

definition has_key :: "(string \<times> 'v) list \<Rightarrow> string \<Rightarrow> bool" where
  "has_key d k = (map_of d k \<noteq> None)"

text \<open>A float read from a decimal is zero when the decimal is zero or rounds to zero,
  which it does up to half of the least positive double, \<open>2 ^ -1075\<close>.\<close>

fun float_truthy :: "pyfloat \<Rightarrow> bool" where
  "float_truthy (Dec m e) =
     (m \<noteq> 0 \<and> (0 \<le> e \<or> (10::int) ^ nat (- e) < \<bar>m\<bar> * 2 ^ 1075))"
| "float_truthy NaN = True"
| "float_truthy (Inf neg) = True"

text \<open>Python's truth value of a decoded document.\<close>

fun truthy :: "json \<Rightarrow> bool" where
  "truthy JNull = False"
| "truthy (JBool b) = b"
| "truthy (JInt i) = (i \<noteq> 0)"
| "truthy (JFloat f) = float_truthy f"
| "truthy (JStr s) = (s \<noteq> [])"
| "truthy (JArr xs) = (xs \<noteq> [])"
| "truthy (JObj d) = (d \<noteq> [])"

definition is_json_ws :: "char \<Rightarrow> bool" where
  "is_json_ws c = (c \<in> set [CHR '' '', CHR 0x09, CHR 0x0A, CHR 0x0D])"

definition skip_ws :: "string \<Rightarrow> string" where
  "skip_ws s = dropWhile is_json_ws s"

definition is_digit :: "char \<Rightarrow> bool" where
  "is_digit c = (c \<in> set ascii_digits)"

definition digit_val :: "char \<Rightarrow> nat" where
  "digit_val c = (case map_of (zip ascii_digits [0 ..< 10]) c of Some i \<Rightarrow> i | None \<Rightarrow> 0)"

definition hex_val :: "char \<Rightarrow> nat option" where
  "hex_val c =
     (case map_of (zip ''0123456789abcdef'' [0 ..< 16]) (lower_char c) of
        Some v \<Rightarrow> Some v
      | None \<Rightarrow> None)"

fun nat_of_digits :: "nat \<Rightarrow> string \<Rightarrow> nat" where
  "nat_of_digits acc [] = acc"
| "nat_of_digits acc (c # cs) = nat_of_digits (10 * acc + digit_val c) cs"

text \<open>Four hexadecimal digits of a \<open>\u\<close> escape.\<close>

definition hex4 :: "string \<Rightarrow> nat option" where
  "hex4 s =
     (case map hex_val s of
        [Some a, Some b, Some c, Some d] \<Rightarrow> Some (((a * 16 + b) * 16 + c) * 16 + d)
      | _ \<Rightarrow> None)"

definition simple_escape :: "char \<Rightarrow> char option" where
  "simple_escape e =
     map_of [(CHR 0x22, CHR 0x22), (CHR 0x5C, CHR 0x5C), (CHR ''/'', CHR ''/''),
             (CHR ''b'', CHR 0x08), (CHR ''f'', CHR 0x0C), (CHR ''n'', CHR 0x0A),
             (CHR ''r'', CHR 0x0D), (CHR ''t'', CHR 0x09)] e"

text \<open>
  The body of a string literal, after its opening quote: the decoded text and what follows
  the closing quote. Control characters are refused (strict mode), as is an unknown
  escape. An escape \<open>\uXXXX\<close> of a code point from 256 on denotes text outside the
  modelled range and is refused here too.
\<close>

fun scanstring :: "string \<Rightarrow> string \<Rightarrow> (string \<times> string) option" where
  "scanstring [] acc = None"
| "scanstring (c # cs) acc =
     (if c = CHR 0x22 then Some (rev acc, cs)
      else if c = CHR 0x5C then
        (case cs of
           [] \<Rightarrow> None
         | e # r \<Rightarrow>
             if e = CHR ''u'' then
               (case hex4 (take 4 r) of
                  None \<Rightarrow> None
                | Some n \<Rightarrow> if n < 256 then scanstring (drop 4 r) (char_of n # acc) else None)
             else
               (case simple_escape e of
                  None \<Rightarrow> None
                | Some x \<Rightarrow> scanstring r (x # acc)))
      else if (of_char c :: nat) < 32 then None
      else scanstring cs (c # acc))"

text \<open>
  A number at the head of the text, by the grammar
  \<open>-?(0|[1-9][0-9]*)(\.[0-9]+)?([eE][-+]?[0-9]+)?\<close>: an integer when it has neither
  fraction nor exponent, a float otherwise.
\<close>

definition scan_int_part :: "string \<Rightarrow> (string \<times> string) option" where
  "scan_int_part s =
     (case s of
        [] \<Rightarrow> None
      | c # cs \<Rightarrow>
          if c = CHR ''0'' then Some ([c], cs)
          else if is_digit c then Some (takeWhile is_digit s, dropWhile is_digit s)
          else None)"

definition scan_frac :: "string \<Rightarrow> string \<times> string" where
  "scan_frac s =
     (case s of
        c # d # cs \<Rightarrow>
          if c = CHR ''.'' \<and> is_digit d
          then (takeWhile is_digit (d # cs), dropWhile is_digit (d # cs))
          else ([], s)
      | _ \<Rightarrow> ([], s))"

definition scan_exp :: "string \<Rightarrow> (int \<times> string) option" where
  "scan_exp s =
     (case s of
        [] \<Rightarrow> None
      | c # cs \<Rightarrow>
          if c = CHR ''e'' \<or> c = CHR ''E'' then
            (let (neg, ds) =
                   (case cs of
                      [] \<Rightarrow> (False, cs)
                    | g # r \<Rightarrow> if g = CHR ''-'' then (True, r)
                               else if g = CHR ''+'' then (False, r) else (False, cs))
             in if ds \<noteq> [] \<and> is_digit (hd ds)
                then Some ((if neg then - 1 else 1) * int (nat_of_digits 0 (takeWhile is_digit ds)),
                           dropWhile is_digit ds)
                else None)
          else None)"

definition scan_number :: "string \<Rightarrow> (json \<times> string) option" where
  "scan_number s =
     (let (neg, s1) = (case s of [] \<Rightarrow> (False, s)
                        | c # cs \<Rightarrow> if c = CHR ''-'' then (True, cs) else (False, s))
      in case scan_int_part s1 of
           None \<Rightarrow> None
         | Some (ip, s2) \<Rightarrow>
             (let (fp, s3) = scan_frac s2;
                  sgn = (if neg then - 1 else 1 :: int)
              in case scan_exp s3 of
                   None \<Rightarrow>
                     if fp = [] then Some (JInt (sgn * int (nat_of_digits 0 ip)), s3)
                     else Some (JFloat (Dec (sgn * int (nat_of_digits 0 (ip @ fp)))
                                            (- int (length fp))), s3)
                 | Some (ex, s4) \<Rightarrow>
                     Some (JFloat (Dec (sgn * int (nat_of_digits 0 (ip @ fp)))
                                       (ex - int (length fp))), s4)))"

text \<open>
  \<open>scan_once\<close> and the array and object readers it calls. The first argument bounds the
  number of calls still allowed; every call consumes at least one character, so the length
  of the text, plus one, is enough.
\<close>

fun scan_once :: "nat \<Rightarrow> string \<Rightarrow> (json \<times> string) option"
  and scan_array :: "nat \<Rightarrow> json list \<Rightarrow> string \<Rightarrow> (json \<times> string) option"
  and scan_object :: "nat \<Rightarrow> dict \<Rightarrow> string \<Rightarrow> (json \<times> string) option" where
  "scan_once 0 s = None"
| "scan_once (Suc n) s =
     (case s of
        [] \<Rightarrow> None
      | c # cs \<Rightarrow>
          if c = CHR 0x22 then map_option (\<lambda>(t, r). (JStr t, r)) (scanstring cs [])
          else if c = CHR ''{'' then
            (case skip_ws cs of
               [] \<Rightarrow> None
             | d # r \<Rightarrow> if d = CHR ''}'' then Some (JObj [], r) else scan_object n [] (d # r))
          else if c = CHR ''['' then
            (case skip_ws cs of
               [] \<Rightarrow> None
             | d # r \<Rightarrow> if d = CHR '']'' then Some (JArr [], r) else scan_array n [] (d # r))
          else if startswith s ''null'' then Some (JNull, drop 4 s)
          else if startswith s ''true'' then Some (JBool True, drop 4 s)
          else if startswith s ''false'' then Some (JBool False, drop 5 s)
          else (case scan_number s of
                  Some r \<Rightarrow> Some r
                | None \<Rightarrow>
                    if startswith s ''NaN'' then Some (JFloat NaN, drop 3 s)
                    else if startswith s ''Infinity'' then Some (JFloat (Inf False), drop 8 s)
                    else if startswith s ''-Infinity'' then Some (JFloat (Inf True), drop 9 s)
                    else None))"
| "scan_array 0 acc s = None"
| "scan_array (Suc n) acc s =
     (case scan_once n s of
        None \<Rightarrow> None
      | Some (v, r) \<Rightarrow>
          (case skip_ws r of
             [] \<Rightarrow> None
           | d # r' \<Rightarrow>
               if d = CHR '']'' then Some (JArr (acc @ [v]), r')
               else if d = CHR '','' then scan_array n (acc @ [v]) (skip_ws r')
               else None))"
| "scan_object 0 acc s = None"
| "scan_object (Suc n) acc s =
     (case s of
        [] \<Rightarrow> None
      | q # s1 \<Rightarrow>
          if q \<noteq> CHR 0x22 then None
          else
            (case scanstring s1 [] of
               None \<Rightarrow> None
             | Some (key, s2) \<Rightarrow>
                 (case skip_ws s2 of
                    [] \<Rightarrow> None
                  | col # s3 \<Rightarrow>
                      if col \<noteq> CHR '':'' then None
                      else
                        (case scan_once n (skip_ws s3) of
                           None \<Rightarrow> None
                         | Some (v, s4) \<Rightarrow>
                             (case skip_ws s4 of
                                [] \<Rightarrow> None
                              | d # s5 \<Rightarrow>
                                  if d = CHR ''}'' then Some (JObj (dict_set acc key v), s5)
                                  else if d = CHR '','' then
                                    scan_object n (dict_set acc key v) (skip_ws s5)
                                  else None)))))"

text \<open>\<open>json.loads\<close>: \<open>None\<close> stands for \<open>JSONDecodeError\<close>. White space may surround
  the document; anything else after it is an error.\<close>

definition json_loads :: "string \<Rightarrow> json option" where
  "json_loads s =
     (case scan_once (Suc (length s)) (skip_ws s) of
        None \<Rightarrow> None
      | Some (v, r) \<Rightarrow> if skip_ws r = [] then Some v else None)"

section \<open>The stream demultiplexer (\<open>GLMClient.send_message\<close>)\<close>

text \<open>
  What the generator yields: \<open>{"type": "thinking", "data": t}\<close> and its siblings.
\<close>

datatype event = Thinking string | ThinkingEnd | Content string | Done | Error string

text \<open>
  What the response delivers to the loop: a line of the body, or a
  \<open>requests.RequestException\<close> (raised by the call itself or while the body is read),
  after which nothing more is read.
\<close>

datatype item = Line string | Fault string

text \<open>
  How the handling of a line leaves the loop: on to the next line, out of the loop
  (\<open>break\<close>), or out of the generator with an exception that no \<open>except\<close> clause of
  \<open>send_message\<close> catches (\<open>TypeError\<close>, \<open>AttributeError\<close>).
\<close>

datatype ctl = Next | Stop | Raise

datatype ending = Finished | Raised

text \<open>\<open><think(?: [^>]*)?>\<close>\<close>

definition think_re :: re where
  "think_re =
     Seq (lit ''<think'')
       (Seq (Opt (Seq (Cls (\<lambda>c. c = CHR '' '')) (Rep (\<lambda>c. c \<noteq> CHR ''>'') 0 None)))
            (Cls (\<lambda>c. c = CHR ''>'')))"

text \<open>\<open>(<details[^>]*>|</details>)\<close>\<close>

definition details_re :: re where
  "details_re =
     Grp 1 (Alt (Seq (lit ''<details'')
                   (Seq (Rep (\<lambda>c. c \<noteq> CHR ''>'') 0 None) (Cls (\<lambda>c. c = CHR ''>''))))
                (lit ''</details>''))"

text \<open>A non-empty \<open>content\<close> string of a \<open>choices[].delta\<close>: the events it yields and
  the new value of \<open>in_thinking\<close>.\<close>

definition choice_content :: "bool \<Rightarrow> string \<Rightarrow> event list \<times> bool" where
  "choice_content in_thinking content0 =
     (let (in_thinking1, content) =
            (case search think_re content0 of
               Some (a, b, c) \<Rightarrow> (True, replace content0 (substr content0 a b) [])
             | None \<Rightarrow> (in_thinking, content0))
      in if contains content ''</think>'' then
           (case split content ''</think>'' of
              [] \<Rightarrow> ([ThinkingEnd], False)
            | p0 # ps \<Rightarrow>
                ((if p0 \<noteq> [] then [Thinking p0] else []) @ [ThinkingEnd] @
                 (case ps of
                    [] \<Rightarrow> []
                  | p1 # ps' \<Rightarrow> if p1 \<noteq> [] then [Content p1] else []),
                 False))
         else if in_thinking1 then ([Thinking content], in_thinking1)
         else ([Content content], in_thinking1))"

text \<open>One element of \<open>data["choices"]\<close>.\<close>

definition handle_choice :: "bool \<Rightarrow> json \<Rightarrow> event list \<times> bool \<times> ctl" where
  "handle_choice in_thinking choice =
     (case choice of
        JObj ch \<Rightarrow>
          (case (case dict_get ch ''delta'' of None \<Rightarrow> JObj [] | Some v \<Rightarrow> v) of
             JObj delta \<Rightarrow>
               (let content = (case dict_get delta ''content'' of None \<Rightarrow> JStr [] | Some v \<Rightarrow> v)
                in if \<not> truthy content then ([], in_thinking, Next)
                   else (case content of
                           JStr s \<Rightarrow> (let (evs, t) = choice_content in_thinking s in (evs, t, Next))
                         | _ \<Rightarrow> ([], in_thinking, Raise)))
           | _ \<Rightarrow> ([], in_thinking, Raise))
      | _ \<Rightarrow> ([], in_thinking, Raise))"

fun handle_choices :: "bool \<Rightarrow> json list \<Rightarrow> event list \<times> bool \<times> ctl" where
  "handle_choices in_thinking [] = ([], in_thinking, Next)"
| "handle_choices in_thinking (choice # rest) =
     (case handle_choice in_thinking choice of
        (evs, t, Next) \<Rightarrow>
          (let (evs', t', c) = handle_choices t rest in (evs @ evs', t', c))
      | (evs, t, c) \<Rightarrow> (evs, t, c))"

text \<open>What \<open>for choice in v\<close> iterates over; \<open>None\<close> when \<open>v\<close> is not iterable.\<close>

definition iterate :: "json \<Rightarrow> json list option" where
  "iterate v =
     (case v of
        JArr xs \<Rightarrow> Some xs
      | JObj d \<Rightarrow> Some (map (\<lambda>(k, x). JStr k) d)
      | JStr s \<Rightarrow> Some (map (\<lambda>c. JStr [c]) s)
      | _ \<Rightarrow> None)"

text \<open>The pieces of \<open>re.split\<close> on the reasoning tags, in order.\<close>

fun details_parts :: "bool \<Rightarrow> string list \<Rightarrow> event list \<times> bool" where
  "details_parts in_thinking [] = ([], in_thinking)"
| "details_parts in_thinking (part # parts) =
     (if part = [] then details_parts in_thinking parts
      else if startswith part ''<details'' then details_parts True parts
      else if part = ''</details>'' then
        (if in_thinking
         then (let (evs, t) = details_parts False parts in (ThinkingEnd # evs, t))
         else details_parts in_thinking parts)
      else
        (let (evs, t) = details_parts in_thinking parts
         in ((if in_thinking then Thinking part else Content part) # evs, t)))"

text \<open>The \<open>data\<close> member of a \<open>chat:completion\<close> envelope.\<close>

definition handle_completion :: "bool \<Rightarrow> dict \<Rightarrow> event list \<times> bool \<times> ctl" where
  "handle_completion in_thinking delta =
     (let dc = (case dict_get delta ''delta_content'' of None \<Rightarrow> JStr [] | Some v \<Rightarrow> v);
          content = (if truthy dc then dc
                     else (case dict_get delta ''content'' of None \<Rightarrow> JStr [] | Some v \<Rightarrow> v));
          phase = dict_get delta ''phase'';
          (evs1, t1) =
            (if phase = Some (JStr ''thinking'') then ([], True)
             else if phase \<in> {Some (JStr ''answer''), Some (JStr ''other''), Some (JStr ''done'')}
             then (if in_thinking then ([ThinkingEnd], False) else ([], in_thinking))
             else ([], in_thinking))
      in if phase = Some (JStr ''done'') then (evs1 @ [Done], t1, Next)
         else if truthy content then
           (case content of
              JStr s \<Rightarrow>
                (let (evs2, t2) = details_parts t1 (re_split details_re s)
                 in (evs1 @ evs2, t2, Next))
            | _ \<Rightarrow> (evs1, t1, Raise))
         else (evs1, t1, Next))"

text \<open>
  A decoded \<open>data:\<close> payload. Only an object gets past \<open>"choices" in data\<close> and
  \<open>data.get("type")\<close>: on a list or a string one of the two raises whatever the
  membership test says, and on a number, a boolean or \<open>null\<close> the test itself raises.
\<close>

definition handle_data :: "bool \<Rightarrow> json \<Rightarrow> event list \<times> bool \<times> ctl" where
  "handle_data in_thinking data =
     (case data of
        JObj d \<Rightarrow>
          (case dict_get d ''choices'' of
             Some v \<Rightarrow>
               (case iterate v of
                  None \<Rightarrow> ([], in_thinking, Raise)
                | Some choices \<Rightarrow> handle_choices in_thinking choices)
           | None \<Rightarrow>
               if dict_get d ''type'' = Some (JStr ''chat:completion'') then
                 (case (case dict_get d ''data'' of None \<Rightarrow> JObj [] | Some v \<Rightarrow> v) of
                    JObj delta \<Rightarrow> handle_completion in_thinking delta
                  | _ \<Rightarrow> ([], in_thinking, Raise))
               else ([], in_thinking, Next))
      | _ \<Rightarrow> ([], in_thinking, Raise))"

text \<open>One line of the body.\<close>

definition handle_line :: "bool \<Rightarrow> string \<Rightarrow> event list \<times> bool \<times> ctl" where
  "handle_line in_thinking line =
     (if line = [] then ([], in_thinking, Next)
      else if startswith line ''data: '' then
        (let data_str = drop 6 line
         in if data_str = ''[DONE]'' then ([Done], in_thinking, Stop)
            else (case json_loads data_str of
                    None \<Rightarrow> ([], in_thinking, Next)
                  | Some data \<Rightarrow> handle_data in_thinking data))
      else ([], in_thinking, Next))"

text \<open>The loop over the response, from a given value of \<open>in_thinking\<close>.\<close>

fun sse_loop :: "bool \<Rightarrow> item list \<Rightarrow> event list \<times> ending" where
  "sse_loop in_thinking [] = ([], Finished)"
| "sse_loop in_thinking (Fault e # rest) = ([Error e], Finished)"
| "sse_loop in_thinking (Line l # rest) =
     (case handle_line in_thinking l of
        (evs, t, Next) \<Rightarrow> (let (evs', e) = sse_loop t rest in (evs @ evs', e))
      | (evs, t, Stop) \<Rightarrow> (evs, Finished)
      | (evs, t, Raise) \<Rightarrow> (evs, Raised))"

definition send_message :: "item list \<Rightarrow> event list \<times> ending" where
  "send_message items = sse_loop False items"

section \<open>Tool-call synthesis (\<open>glm_proxy/server.py\<close>)\<close>

text \<open>
  The functions of \<open>server.py\<close> keep their names, without the leading underscore.
  Python's \<open>None\<close> is \<open>JNull\<close> where it is a value among decoded JSON values, and the
  \<open>None\<close> of \<open>option\<close> where a function returns \<open>Optional\<close>.
\<close>

datatype exn = TypeError | AttributeError

text \<open>A normalized tool call, \<open>{"name": name, "arguments": args}\<close>.\<close>

record tool_call =
  call_name :: string
  call_arguments :: dict

type_synonym params = "(string \<times> string list) list"

definition try_parse_snippet :: "string \<Rightarrow> json" where
  "try_parse_snippet snippet =
     (case json_loads snippet of
        Some v \<Rightarrow> v
      | None \<Rightarrow>
          (let repaired = replace snippet [CHR 0x27] [CHR 0x22];
               repaired = replace (replace repaired '',}'' ''}'') '',]'' '']''
           in case json_loads repaired of Some v \<Rightarrow> v | None \<Rightarrow> JNull))"

definition repair_json :: "string \<Rightarrow> json" where
  "repair_json raw0 =
     (let raw = strip raw0;
          raw = (if startswith raw ''```''
                 then (let r = strip_chars [CHR ''`'', CHR 0x0A, CHR '' ''] raw
                       in if startswith r ''json'' then strip (drop 4 r) else r)
                 else raw)
      in case json_loads raw of
           Some v \<Rightarrow> v
         | None \<Rightarrow>
             (let parsed =
                    (case (find_str raw ''['', rfind raw '']'') of
                       (Some start, Some end) \<Rightarrow>
                         if start < end then try_parse_snippet (substr raw start (end + 1))
                         else JNull
                     | _ \<Rightarrow> JNull)
              in if parsed \<noteq> JNull then parsed
                 else (case (find_str raw ''{'', rfind raw ''}'') of
                         (Some start, Some end) \<Rightarrow>
                           if end \<le> start then JNull
                           else try_parse_snippet (substr raw start (end + 1))
                       | _ \<Rightarrow> JNull)))"

definition ARG_SYNONYMS :: "(string \<times> string) list" where
  "ARG_SYNONYMS =
     [(''filepath'', ''path''), (''file_path'', ''path''), (''filename'', ''path''),
      (''file'', ''path''), (''cmd'', ''command'')]"

definition TOOL_NAME_SYNONYMS :: "(string \<times> string) list" where
  "TOOL_NAME_SYNONYMS =
     [(''writefile'', ''write''), (''write_file'', ''write''), (''save_file'', ''write''),
      (''save'', ''write''), (''create_file'', ''write''), (''readfile'', ''read''),
      (''read_file'', ''read''), (''open_file'', ''read''), (''edit_file'', ''edit''),
      (''apply_patch'', ''patch'')]"

definition normalize_tool_name :: "string \<Rightarrow> string" where
  "normalize_tool_name name = replace (replace (lower name) ''_'' []) ''-'' []"

fun resolve_tool_name :: "string \<Rightarrow> string list \<Rightarrow> string option" where
  "resolve_tool_name target [] = None"
| "resolve_tool_name target (tool # allowed_tools) =
     (let target_norm = normalize_tool_name target;
          norm = normalize_tool_name tool
      in if norm = target_norm then Some tool
         else if dict_get TOOL_NAME_SYNONYMS norm = Some target_norm then Some tool
         else resolve_tool_name target allowed_tools)"

text \<open>The loop of \<open>_normalize_args\<close> when no parameter list is given.\<close>

fun normalize_args_free :: "dict \<Rightarrow> dict \<Rightarrow> dict" where
  "normalize_args_free normalized [] = normalized"
| "normalize_args_free normalized ((key, v) # args) =
     (let key_norm = replace (replace (lower key) ''_'' []) ''-'' []
      in case dict_get ARG_SYNONYMS key_norm of
           Some synonym \<Rightarrow>
             (let n1 = dict_set normalized key v;
                  n2 = (if synonym \<noteq> key then dict_set n1 synonym v else n1)
              in normalize_args_free n2 args)
         | None \<Rightarrow> normalize_args_free (dict_set normalized key v) args)"

text \<open>The loop of \<open>_normalize_args\<close> against the declared parameters.\<close>

fun normalize_args_decl :: "(string \<times> string) list \<Rightarrow> dict \<Rightarrow> dict \<Rightarrow> dict" where
  "normalize_args_decl allowed_norm normalized [] = normalized"
| "normalize_args_decl allowed_norm normalized ((key, v) # args) =
     (let key_norm = replace (replace (lower key) ''_'' []) ''-'' []
      in case dict_get allowed_norm key_norm of
           Some p \<Rightarrow> normalize_args_decl allowed_norm (dict_set normalized p v) args
         | None \<Rightarrow>
             (case (if key_norm = ''path'' then dict_get allowed_norm ''filepath'' else None) of
                Some p \<Rightarrow> normalize_args_decl allowed_norm (dict_set normalized p v) args
              | None \<Rightarrow>
                  (case (case dict_get ARG_SYNONYMS key_norm of
                           Some synonym \<Rightarrow>
                             dict_get allowed_norm
                               (replace (replace (lower synonym) ''_'' []) ''-'' [])
                         | None \<Rightarrow> None) of
                     Some p \<Rightarrow> normalize_args_decl allowed_norm (dict_set normalized p v) args
                   | None \<Rightarrow> normalize_args_decl allowed_norm (dict_set normalized key v) args)))"

definition normalize_args :: "dict \<Rightarrow> string list option \<Rightarrow> dict" where
  "normalize_args args allowed_params =
     (case allowed_params of
        None \<Rightarrow> normalize_args_free [] args
      | Some allowed \<Rightarrow>
          if allowed = [] then normalize_args_free [] args
          else normalize_args_decl
                 (fold (\<lambda>p d. dict_set d (replace (replace (lower p) ''_'' []) ''-'' []) p)
                    allowed [])
                 [] args)"

text \<open>\<open>next((t for t in allowed_tools if name in t), None)\<close>\<close>

definition first_containing :: "string \<Rightarrow> string list \<Rightarrow> string option" where
  "first_containing name allowed_tools = List.find (\<lambda>t. contains t name) allowed_tools"

text \<open>
  The name a call ends up with in \<open>_normalize_tool_calls\<close>: \<open>Inr None\<close> when the call
  is skipped. Looking a truthy list or object up in the synonym table raises
  \<open>TypeError\<close> (unhashable).
\<close>

definition resolve_call_name :: "json \<Rightarrow> string list \<Rightarrow> exn + string option" where
  "resolve_call_name name0 allowed_tools =
     (case name0 of
        JStr s \<Rightarrow>
          (let name = (if s \<noteq> []
                       then (case dict_get TOOL_NAME_SYNONYMS s of Some t \<Rightarrow> t | None \<Rightarrow> s)
                       else s)
           in if name = [] \<or> name \<notin> set allowed_tools then
                (if name \<in> {''write'', ''edit''} then
                   (case first_containing name allowed_tools of
                      Some match \<Rightarrow> if match \<noteq> [] then Inr (Some match) else Inr None
                    | None \<Rightarrow> Inr None)
                 else Inr None)
              else Inr (Some name))
      | JArr xs \<Rightarrow> if xs \<noteq> [] then Inl TypeError else Inr None
      | JObj d \<Rightarrow> if d \<noteq> [] then Inl TypeError else Inr None
      | _ \<Rightarrow> Inr None)"

text \<open>The arguments of a call as a dictionary, \<open>None\<close> when the call is skipped.\<close>

definition call_args :: "json \<Rightarrow> dict option" where
  "call_args args0 =
     (case args0 of
        JStr s \<Rightarrow> (case json_loads s of Some (JObj d) \<Rightarrow> Some d | _ \<Rightarrow> None)
      | JObj d \<Rightarrow> Some d
      | _ \<Rightarrow> None)"

text \<open>The loop of \<open>_normalize_tool_calls\<close> over the coerced calls, each the pair of its
  \<open>name\<close> and \<open>arguments\<close> members.\<close>

fun normalize_loop :: "(json \<times> json) list \<Rightarrow> string list \<Rightarrow> params \<Rightarrow> exn + tool_call list" where
  "normalize_loop [] allowed_tools tool_params_by_name = Inr []"
| "normalize_loop ((name0, args0) # calls) allowed_tools tool_params_by_name =
     (case resolve_call_name name0 allowed_tools of
        Inl e \<Rightarrow> Inl e
      | Inr None \<Rightarrow> normalize_loop calls allowed_tools tool_params_by_name
      | Inr (Some name) \<Rightarrow>
          (case call_args args0 of
             None \<Rightarrow> normalize_loop calls allowed_tools tool_params_by_name
           | Some args \<Rightarrow>
               (case normalize_loop calls allowed_tools tool_params_by_name of
                  Inl e \<Rightarrow> Inl e
                | Inr rest \<Rightarrow>
                    Inr (\<lparr>call_name = name,
                          call_arguments = normalize_args args (dict_get tool_params_by_name name)\<rparr>
                         # rest))))"

definition normalize_tool_calls ::
    "(json \<times> json) list \<Rightarrow> string list \<Rightarrow> params \<Rightarrow> exn + tool_call list option" where
  "normalize_tool_calls tool_calls allowed_tools tool_params_by_name =
     (case normalize_loop tool_calls allowed_tools tool_params_by_name of
        Inl e \<Rightarrow> Inl e
      | Inr normalized \<Rightarrow> Inr (if normalized = [] then None else Some normalized))"

definition get_or_null :: "dict \<Rightarrow> string \<Rightarrow> json" where
  "get_or_null d k = (case dict_get d k of Some v \<Rightarrow> v | None \<Rightarrow> JNull)"

fun coerce_tool_calls :: "json list \<Rightarrow> (json \<times> json) list" where
  "coerce_tool_calls [] = []"
| "coerce_tool_calls (call # raw_calls) =
     (case call of
        JObj c \<Rightarrow>
          if has_key c ''name'' \<and> has_key c ''arguments''
          then (get_or_null c ''name'', get_or_null c ''arguments'') # coerce_tool_calls raw_calls
          else (case dict_get c ''function'' of
                  Some (JObj func) \<Rightarrow>
                    ((if truthy (get_or_null func ''name'') then get_or_null func ''name''
                      else get_or_null c ''name''),
                     (case dict_get func ''arguments'' of Some v \<Rightarrow> v | None \<Rightarrow> JObj []))
                    # coerce_tool_calls raw_calls
                | _ \<Rightarrow> coerce_tool_calls raw_calls)
      | _ \<Rightarrow> coerce_tool_calls raw_calls)"

definition extract_tool_call ::
    "string \<Rightarrow> string list \<Rightarrow> params \<Rightarrow> exn + tool_call list option" where
  "extract_tool_call text allowed_tools tool_params_by_name =
     (if text = [] then Inr None
      else
        (let data = repair_json text
         in if \<not> truthy data then Inr None
            else
              (case data of
                 JArr xs \<Rightarrow>
                   normalize_tool_calls (coerce_tool_calls xs) allowed_tools tool_params_by_name
               | JObj d \<Rightarrow>
                   if has_key d ''function'' \<and> \<not> has_key d ''tool_calls'' \<and> \<not> has_key d ''tool''
                   then normalize_tool_calls (coerce_tool_calls [data]) allowed_tools
                          tool_params_by_name
                   else
                     (case dict_get d ''tool_calls'' of
                        Some (JArr xs) \<Rightarrow>
                          normalize_tool_calls (coerce_tool_calls xs) allowed_tools
                            tool_params_by_name
                      | _ \<Rightarrow>
                          if has_key d ''tool'' \<and> has_key d ''arguments''
                          then normalize_tool_calls
                                 [(get_or_null d ''tool'', get_or_null d ''arguments'')]
                                 allowed_tools tool_params_by_name
                          else Inr None)
               | _ \<Rightarrow> Inr None)))"

text \<open>\<open>a or b\<close> on optional strings: \<open>a\<close> when it is a non-empty string, else \<open>b\<close>.\<close>

definition or_else :: "string option \<Rightarrow> string option \<Rightarrow> string option" where
  "or_else a b = (case a of Some s \<Rightarrow> if s \<noteq> [] then a else b | None \<Rightarrow> b)"

text \<open>\<open>[:=]\s*"\<close>\<close>

definition key_sep_re :: re where
  "key_sep_re =
     Seq (Cls (\<lambda>c. c = CHR '':'' \<or> c = CHR ''=''))
       (Seq (Rep isspace 0 None) (Cls (\<lambda>c. c = CHR 0x22)))"

text \<open>The \<open>while\<close> loop of \<open>_scan_quoted_value\<close> over the text from \<open>start\<close> on: the
  number of characters before the closing quote, or all of them when there is none.\<close>

fun quoted_len :: "bool \<Rightarrow> string \<Rightarrow> nat" where
  "quoted_len escaped [] = 0"
| "quoted_len escaped (ch # rest) =
     (if ch = CHR 0x5C \<and> \<not> escaped then Suc (quoted_len True rest)
      else if ch = CHR 0x22 \<and> \<not> escaped then 0
      else Suc (quoted_len False rest))"

definition scan_quoted_value :: "string \<Rightarrow> string \<Rightarrow> string option" where
  "scan_quoted_value src key =
     (case find_str (lower src) key of
        None \<Rightarrow> None
      | Some key_idx \<Rightarrow>
          (let after = drop (key_idx + length key) src
           in case search key_sep_re after of
                None \<Rightarrow> None
              | Some (st, en, c) \<Rightarrow>
                  (let start = key_idx + length key + en
                   in Some (take (quoted_len False (drop start src)) (drop start src)))))"

definition partial_candidates :: "string list" where
  "partial_candidates =
     [''write'', ''write_file'', ''writefile'', ''save_file'', ''edit'', ''edit_file'',
      ''apply_patch'', ''read'', ''read_file'', ''readfile'', ''open_file'']"

definition is_dir_marker :: "string \<Rightarrow> bool" where
  "is_dir_marker cleaned =
     (cleaned \<in> {''.'', ''./''} \<or> endswith cleaned ''/'' \<or> endswith cleaned [CHR 0x5C])"

definition extract_partial_tool_call ::
    "string \<Rightarrow> string list \<Rightarrow> params \<Rightarrow> tool_call list option" where
  "extract_partial_tool_call text allowed_tools tool_params_by_name =
     (if text = [] then None
      else
        (let scan_text = replace text [CHR 0x5C, CHR 0x22] [CHR 0x22];
             lowered = lower scan_text;
             tool_name =
               (case List.find (\<lambda>candidate. contains lowered candidate) partial_candidates of
                  Some candidate \<Rightarrow>
                    (case dict_get TOOL_NAME_SYNONYMS candidate of
                       Some t \<Rightarrow> Some t
                     | None \<Rightarrow> Some candidate)
                | None \<Rightarrow> None);
             tool_name =
               (case tool_name of
                  Some t \<Rightarrow>
                    if t \<noteq> [] \<and> t \<notin> set allowed_tools then first_containing t allowed_tools
                    else tool_name
                | None \<Rightarrow> None)
         in case tool_name of
              None \<Rightarrow> None
            | Some tool_name \<Rightarrow>
                if tool_name = [] then None
                else
                  (let path0 = or_else (scan_quoted_value scan_text ''filepath'')
                                 (scan_quoted_value scan_text ''file_path'');
                       path1 = (if path0 = None
                                then or_else (scan_quoted_value scan_text ''path'')
                                       (scan_quoted_value scan_text ''filename'')
                                else path0);
                       path = (case path1 of Some p \<Rightarrow> p | None \<Rightarrow> []);
                       content = map_option
                                   (\<lambda>c. rstrip_chars [CHR ''}'', CHR 0x22, CHR '' ''] (rstrip c))
                                   (scan_quoted_value scan_text ''content'')
                   in if tool_name \<in> {''write'', ''edit''} \<and> (path = [] \<or> content = None) then None
                      else if tool_name = ''read'' \<and> path = [] then None
                      else if tool_name = ''read'' \<and> is_dir_marker (strip path) then None
                      else
                        (let args = (if path \<noteq> [] then [(''path'', JStr path)] else []);
                             args = (case content of
                                       Some c \<Rightarrow> dict_set args ''content'' (JStr c)
                                     | None \<Rightarrow> args);
                             args = normalize_args args (dict_get tool_params_by_name tool_name)
                         in if args = [] then None
                            else Some [\<lparr>call_name = tool_name, call_arguments = args\<rparr>]))))"

text \<open>\<open>a or b\<close> on decoded values.\<close>

definition py_or :: "json \<Rightarrow> json \<Rightarrow> json" where
  "py_or a b = (if truthy a then a else b)"

definition is_valid_write_call :: "string \<Rightarrow> tool_call list \<Rightarrow> bool" where
  "is_valid_write_call user_text tool_calls =
     (case tool_calls of
        [] \<Rightarrow> False
      | call # later \<Rightarrow>
          (let name = call_name call
           in if name \<notin> {''write'', ''edit'', ''read''} then True
              else
                (let args = call_arguments call
                 in if name = ''read'' then
                      (case py_or (get_or_null args ''path'')
                              (py_or (get_or_null args ''filePath'')
                                 (get_or_null args ''file_path'')) of
                         JStr path \<Rightarrow>
                           if strip path = [] then False
                           else if is_dir_marker (strip path) then False
                           else True
                       | _ \<Rightarrow> False)
                    else
                      (case get_or_null args ''content'' of
                         JStr content \<Rightarrow>
                           if strip content = [] then False
                           else if \<not> (\<exists>k \<in> set [''path'', ''filePath'', ''file_path'']. has_key args k)
                           then False
                           else True
                       | _ \<Rightarrow> False))))"

definition list_intent :: "string list" where
  "list_intent =
     [''list'', ''show'', ''inspect'', ''files'', ''folders'', ''directories'', ''ls'', ''tree'']"

text \<open>\<open>tool_params_by_name.get(name, [])\<close>, which is empty exactly when
  \<open>tool_params_by_name.get(name)\<close> is falsy.\<close>

definition params_of :: "params \<Rightarrow> string \<Rightarrow> string list" where
  "params_of tool_params_by_name name =
     (case dict_get tool_params_by_name name of Some ps \<Rightarrow> ps | None \<Rightarrow> [])"

definition fallback_tool_call :: "string \<Rightarrow> string list \<Rightarrow> params \<Rightarrow> tool_call list option" where
  "fallback_tool_call user_text allowed_tools tool_params_by_name =
     (let text = lower user_text
      in if \<not> (\<exists>k \<in> set list_intent. contains text k) then None
         else if ''glob'' \<in> set allowed_tools then
           (let ps = params_of tool_params_by_name ''glob'';
                args = (if ''pattern'' \<in> set ps then [(''pattern'', JStr ''**/*'')]
                        else if ''path'' \<in> set ps then [(''path'', JStr ''.'')]
                        else if ''cwd'' \<in> set ps then [(''cwd'', JStr ''.'')]
                        else [])
            in Some [\<lparr>call_name = ''glob'', call_arguments = args\<rparr>])
         else
           (case List.find (\<lambda>candidate. candidate \<in> set allowed_tools)
                   [''ls'', ''list'', ''list_dir''] of
              Some candidate \<Rightarrow>
                (let ps = params_of tool_params_by_name candidate;
                     args = (if ''path'' \<in> set ps then [(''path'', JStr ''.'')]
                             else if ''cwd'' \<in> set ps then [(''cwd'', JStr ''.'')]
                             else [])
                 in Some [\<lparr>call_name = candidate, call_arguments = args\<rparr>])
            | None \<Rightarrow> None))"

definition read_intent :: "string list" where
  "read_intent =
     [''read'', ''open'', ''show'', ''cat'', ''contents'', ''what is in'', ''what'' @ [CHR 0x27] @ ''s in'',
      ''display'']"

text \<open>\<open>[\w./-]\<close>\<close>

definition is_path_char :: "char \<Rightarrow> bool" where
  "is_path_char c = (is_word c \<or> c = CHR ''.'' \<or> c = CHR ''/'' \<or> c = CHR ''-'')"

text \<open>The pattern of candidates:
  a back-quoted, double-quoted or single-quoted run, or \<open>[\w./-]+\.[A-Za-z0-9]+\<close>.\<close>

definition quoted_re :: "nat \<Rightarrow> char \<Rightarrow> re" where
  "quoted_re g q =
     Seq (Cls (\<lambda>c. c = q)) (Seq (Grp g (Rep (\<lambda>c. c \<noteq> q) 1 None)) (Cls (\<lambda>c. c = q)))"

definition candidate_re :: re where
  "candidate_re =
     Alt (quoted_re 1 (CHR ''`''))
       (Alt (quoted_re 2 (CHR 0x22))
          (Alt (quoted_re 3 (CHR 0x27))
             (Grp 4 (Seq (Rep is_path_char 1 None)
                       (Seq (Cls (\<lambda>c. c = CHR ''.'')) (Rep is_ascii_alnum 1 None))))))"

text \<open>The first group of a match that is a non-empty string.\<close>

definition first_group :: "string \<Rightarrow> caps \<Rightarrow> string option" where
  "first_group s c =
     (case List.find (\<lambda>g. g \<noteq> None \<and> g \<noteq> Some []) (map (group_text s c) [1, 2, 3, 4]) of
        Some g \<Rightarrow> g
      | None \<Rightarrow> None)"

definition candidates_of :: "string \<Rightarrow> string list" where
  "candidates_of user_text_raw =
     concat (map (\<lambda>(st, en, c). case first_group user_text_raw c of
                                   Some g \<Rightarrow> [g] | None \<Rightarrow> [])
               (finditer candidate_re user_text_raw))"

text \<open>\<open>\\.[A-Za-z0-9]{1,6}$\<close> as the source writes it in a raw string: a backslash, any
  character but a newline, then one to six letters or digits at the end.\<close>

definition score_ext_re :: re where
  "score_ext_re =
     Seq (Cls (\<lambda>c. c = CHR 0x5C))
       (Seq (Cls (\<lambda>c. c \<noteq> CHR 0x0A)) (Seq (Rep is_ascii_alnum 1 (Some 6)) Eos))"

definition score :: "string \<Rightarrow> int" where
  "score candidate =
     (if contains candidate ''/'' \<or> contains candidate [CHR 0x5C] then 2 else 0)
     + (if search score_ext_re candidate \<noteq> None then 3 else 0)
     + (if \<exists>e \<in> set [''.txt'', ''.md'', ''.json'', ''.py'', ''.yaml'', ''.yml'', ''.toml''].
             endswith candidate e then 2 else 0)
     + (if 2 < length candidate then 1 else 0)"

definition clean_candidates :: "string list \<Rightarrow> string list" where
  "clean_candidates candidates =
     filter (\<lambda>cleaned. cleaned \<noteq> []) (map (\<lambda>c. strip_chars ''.,:;!?)'' (strip c)) candidates)"

text \<open>\<open>[./\\\\]\<close>: a dot, a slash or a backslash.\<close>

definition path_like_re :: re where
  "path_like_re = Cls (\<lambda>c. c = CHR ''.'' \<or> c = CHR ''/'' \<or> c = CHR 0x5C)"

text \<open>\<open>sorted(matches, key=len)[0]\<close> for a non-empty list.\<close>

definition shortest :: "string list \<Rightarrow> string" where
  "shortest ms = max_by (\<lambda>m. - int (length m)) (hd ms) (tl ms)"

text \<open>
  The working tree is a parameter \<open>fs\<close>: \<open>fs path\<close> is the list
  \<open>[p for p in glob.glob(f"**/{path}", recursive=True) if os.path.isfile(p)]\<close>, or \<open>None\<close>
  when computing it raises.
\<close>

definition resolve_bare :: "(string \<Rightarrow> string list option) \<Rightarrow> string \<Rightarrow> string" where
  "resolve_bare fs path =
     (if \<not> startswith path ''/'' \<and> \<not> contains path ''/'' \<and> \<not> contains path [CHR 0x5C] then
        (case fs path of
           None \<Rightarrow> path
         | Some ms \<Rightarrow> if ms = [] then path else if length ms = 1 then hd ms else shortest ms)
      else path)"

definition fallback_read_call ::
    "(string \<Rightarrow> string list option) \<Rightarrow> string \<Rightarrow> string list \<Rightarrow> params \<Rightarrow> tool_call list option" where
  "fallback_read_call fs user_text_raw allowed_tools tool_params_by_name =
     (case resolve_tool_name ''read'' allowed_tools of
        None \<Rightarrow> None
      | Some tool_name \<Rightarrow>
          if tool_name = [] then None
          else if \<not> (\<exists>k \<in> set read_intent. contains (lower user_text_raw) k) then None
          else
            (let candidates = candidates_of user_text_raw
             in if candidates = [] then None
                else
                  (let cleaned_candidates = clean_candidates candidates
                   in if cleaned_candidates = [] then None
                      else
                        (let path = max_by score (hd cleaned_candidates) (tl cleaned_candidates)
                         in if search path_like_re path = None then None
                            else if path = [] then None
                            else
                              (let path = resolve_bare fs path;
                                   ps = dict_get tool_params_by_name tool_name;
                                   args = [(''path'', JStr path)];
                                   args =
                                     (if params_of tool_params_by_name tool_name = []
                                      then dict_set args ''filePath'' (JStr path)
                                      else
                                        (let args = normalize_args args ps
                                         in if ''filePath'' \<in> set (params_of tool_params_by_name tool_name)
                                               \<and> \<not> has_key args ''filePath''
                                            then dict_set args ''filePath'' (JStr path)
                                            else args))
                               in Some [\<lparr>call_name = tool_name, call_arguments = args\<rparr>])))))"

section \<open>The chat-completions handler\<close>

text \<open>
  \<open>_collect_glm_response\<close> over what \<open>send_message\<close> yields: the content chunks joined
  and stripped; \<open>None\<close> when the generator raises, which the handler does not catch.
\<close>

definition content_parts :: "event list \<Rightarrow> string list" where
  "content_parts events = concat (map (\<lambda>chunk. case chunk of Content d \<Rightarrow> [d] | _ \<Rightarrow> []) events)"

definition collect_glm_response :: "event list \<times> ending \<Rightarrow> string option" where
  "collect_glm_response out =
     (case out of
        (events, Raised) \<Rightarrow> None
      | (events, Finished) \<Rightarrow> Some (strip (concat (content_parts events))))"

text \<open>What \<open>_stream_glm_response\<close> sends before its closing \<open>stop\<close> chunk and
  \<open>[DONE]\<close>: a delta for each content chunk, an \<open>error\<close> payload for an error chunk.\<close>

datatype chunk = DeltaContent string | ErrorPayload string

definition stream_glm_response :: "event list \<times> ending \<Rightarrow> chunk list \<times> ending" where
  "stream_glm_response out =
     (case out of
        (events, e) \<Rightarrow>
          (concat (map (\<lambda>chunk. case chunk of
                                  Content d \<Rightarrow> [DeltaContent d]
                                | Error m \<Rightarrow> [ErrorPayload m]
                                | _ \<Rightarrow> []) events), e))"

text \<open>
  What the handler answers: tool calls (\<open>_openai_tool_response\<close> or
  \<open>_stream_tool_calls\<close>), assistant content (\<open>_openai_response\<close> or
  \<open>_stream_content\<close>), the forwarded stream, or an exception that leaves the handler.
\<close>

datatype reply =
    ToolCallsReply "tool_call list"
  | ContentReply string
  | StreamReply "chunk list" ending
  | ServerError

text \<open>The decoded request, as far as the handler's decisions depend on it.\<close>

record request =
  req_stream :: bool
  req_allowed_tools :: "string list"
  req_tool_params :: params
  req_last_user_raw :: string

definition action_keywords :: "string list" where
  "action_keywords =
     [''create'', ''write'', ''edit'', ''modify'', ''delete'', ''remove'', ''save'', ''file'',
      ''run'', ''execute'', ''install'', ''search'', ''find'', ''list'', ''open'', ''read'',
      ''patch'', ''apply'', ''inspect'', ''show'', ''contents'']"

text \<open>\<open>[\w./-]+\.[A-Za-z0-9]{1,6}\b\<close>\<close>

definition mentions_file_re :: re where
  "mentions_file_re =
     Seq (Rep is_path_char 1 None)
       (Seq (Cls (\<lambda>c. c = CHR ''.'')) (Seq (Rep is_ascii_alnum 1 (Some 6)) Wordb))"

definition actionable :: "string \<Rightarrow> bool" where
  "actionable last_user_raw =
     ((\<exists>kw \<in> set action_keywords. contains (lower last_user_raw) kw)
      \<or> search mentions_file_re last_user_raw \<noteq> None)"

text \<open>The two synthesis stages on the buffered text.\<close>

definition synthesize :: "string \<Rightarrow> string list \<Rightarrow> params \<Rightarrow> exn + tool_call list option" where
  "synthesize full_text allowed_tools tool_params_by_name =
     (case extract_tool_call full_text allowed_tools tool_params_by_name of
        Inl e \<Rightarrow> Inl e
      | Inr (Some calls) \<Rightarrow> Inr (Some calls)
      | Inr None \<Rightarrow> Inr (extract_partial_tool_call full_text allowed_tools tool_params_by_name))"

text \<open>
  The handler from the synthesized \<open>tool_call\<close> on: validation, the read fallback in place
  of a rejected call, the listing fallback, and the text as assistant content. In streaming
  mode an empty text is replaced by a retry hint.
\<close>

definition validate_and_reply ::
    "(string \<Rightarrow> string list option) \<Rightarrow> request \<Rightarrow> tool_call list option \<Rightarrow> string \<Rightarrow> reply" where
  "validate_and_reply fs req tool_call0 full_text =
     (let last_user_raw = req_last_user_raw req;
          last_user = lower last_user_raw;
          allowed_tools = req_allowed_tools req;
          tool_params_by_name = req_tool_params req;
          tool_call =
            (case tool_call0 of
               Some calls \<Rightarrow>
                 if \<not> is_valid_write_call last_user calls
                 then fallback_read_call fs last_user_raw allowed_tools tool_params_by_name
                 else tool_call0
             | None \<Rightarrow> None)
      in case (case tool_call of
                 Some calls \<Rightarrow> if is_valid_write_call last_user calls then Some calls else None
               | None \<Rightarrow> None) of
           Some calls \<Rightarrow> ToolCallsReply calls
         | None \<Rightarrow>
             (case (if actionable last_user_raw
                    then fallback_tool_call last_user allowed_tools tool_params_by_name
                    else None) of
                Some calls \<Rightarrow> ToolCallsReply calls
              | None \<Rightarrow>
                  ContentReply
                    (if req_stream req \<and> full_text = []
                     then ''Unable to generate tool call. Please retry.''
                     else full_text)))"

definition tool_reply :: "(string \<Rightarrow> string list option) \<Rightarrow> request \<Rightarrow> string \<Rightarrow> reply" where
  "tool_reply fs req full_text =
     (case synthesize full_text (req_allowed_tools req) (req_tool_params req) of
        Inl e \<Rightarrow> ServerError
      | Inr tool_call \<Rightarrow> validate_and_reply fs req tool_call full_text)"

text \<open>
  \<open>chat_completions\<close>, given the working tree, the decoded request and what the backend
  delivers for the completion call. \<open>tools\<close> is non-empty exactly when
  \<open>allowed_tools\<close> is.
\<close>

definition chat_completions ::
    "(string \<Rightarrow> string list option) \<Rightarrow> request \<Rightarrow> item list \<Rightarrow> reply" where
  "chat_completions fs req items =
     (let last_user_raw = req_last_user_raw req;
          last_user = lower last_user_raw;
          allowed_tools = req_allowed_tools req;
          tool_params_by_name = req_tool_params req;
          tools = (allowed_tools \<noteq> []);
          fallback =
            (if tools then
               (case fallback_read_call fs last_user_raw allowed_tools tool_params_by_name of
                  Some calls \<Rightarrow> Some calls
                | None \<Rightarrow>
                    if actionable last_user_raw
                    then fallback_tool_call last_user allowed_tools tool_params_by_name
                    else None)
             else None)
      in case fallback of
           Some calls \<Rightarrow> ToolCallsReply calls
         | None \<Rightarrow>
             if tools then
               (case collect_glm_response (send_message items) of
                  None \<Rightarrow> ServerError
                | Some full_text \<Rightarrow> tool_reply fs req full_text)
             else if req_stream req then
               (case stream_glm_response (send_message items) of
                  (chunks, e) \<Rightarrow> StreamReply chunks e)
             else
               (case collect_glm_response (send_message items) of
                  None \<Rightarrow> ServerError
                | Some full_text \<Rightarrow> ContentReply full_text))"

section \<open>The request signer (\<open>glm_cli/signature_helper.py\<close>)\<close>

subsection \<open>Bytes, UTF-8, Base64 and hexadecimal digests\<close>

type_synonym byte = "8 word"

text \<open>
  The signer is modelled on all of Python's \<open>str\<close>: a text is the list of its code
  points, natural numbers below \<open>0x110000\<close>. \<open>code_points\<close> reads a text of code
  points below 256, such as a literal of the program, as one.
\<close>

type_synonym unicode = "nat list"

definition code_points :: "string \<Rightarrow> unicode" where
  "code_points s = map of_char s"

text \<open>The code points UTF-8 can encode: all but the surrogates \<open>U+D800\<close> to
  \<open>U+DFFF\<close>.\<close>

definition encodable :: "nat \<Rightarrow> bool" where
  "encodable c = (c < 0xD800 \<or> (0xE000 \<le> c \<and> c < 0x110000))"

text \<open>The one to four bytes of a code point.\<close>

definition utf8_char :: "nat \<Rightarrow> byte list" where
  "utf8_char c =
     (if c < 0x80 then [of_nat c]
      else if c < 0x800 then [of_nat (0xC0 + c div 64), of_nat (0x80 + c mod 64)]
      else if c < 0x10000 then
        [of_nat (0xE0 + c div 4096), of_nat (0x80 + c div 64 mod 64), of_nat (0x80 + c mod 64)]
      else
        [of_nat (0xF0 + c div 262144), of_nat (0x80 + c div 4096 mod 64),
         of_nat (0x80 + c div 64 mod 64), of_nat (0x80 + c mod 64)])"

definition utf8_bytes :: "unicode \<Rightarrow> byte list" where
  "utf8_bytes s = concat (map utf8_char s)"

datatype encode_error = UnicodeEncodeError

text \<open>\<open>s.encode("utf-8")\<close>: it raises \<open>UnicodeEncodeError\<close> on a text with a
  surrogate.\<close>

definition utf8 :: "unicode \<Rightarrow> encode_error + byte list" where
  "utf8 s = (if list_all encodable s then Inr (utf8_bytes s) else Inl UnicodeEncodeError)"




definition hex_digits :: string where
  "hex_digits = ''0123456789abcdef''"

definition hex_byte :: "byte \<Rightarrow> string" where
  "hex_byte b = [hex_digits ! (unat b div 16), hex_digits ! (unat b mod 16)]"

text \<open>\<open>.hexdigest()\<close>\<close>

definition hexdigest :: "byte list \<Rightarrow> string" where
  "hexdigest bs = concat (map hex_byte bs)"

subsection \<open>SHA-256 and HMAC\<close>

text \<open>\<open>hashlib.sha256\<close> and \<open>hmac.new(key, msg, hashlib.sha256)\<close>, after FIPS 180-4
  and RFC 2104.\<close>

type_synonym w32 = "32 word"

text \<open>
  The constants are the ones the standard defines: the first 32 bits of the fractional
  parts of the cube roots of the first 64 primes, and of the square roots of the first 8.
  \<open>iroot k n\<close> is the integer \<open>k\<close>-th root of \<open>n\<close>, found by bisection between
  \<open>lo\<close> and \<open>hi\<close>.
\<close>

function iroot_between :: "nat \<Rightarrow> nat \<Rightarrow> nat \<Rightarrow> nat \<Rightarrow> nat" where
  "iroot_between k n lo hi =
     (if hi \<le> Suc lo then lo
      else if ((lo + hi) div 2) ^ k \<le> n then iroot_between k n ((lo + hi) div 2) hi
      else iroot_between k n lo ((lo + hi) div 2))"
  by pat_completeness auto
termination
  by (relation "measure (\<lambda>(k, n, lo, hi). hi - lo)") auto

declare iroot_between.simps [simp del]

definition iroot :: "nat \<Rightarrow> nat \<Rightarrow> nat" where
  "iroot k n = iroot_between k n 0 (Suc n)"

definition first_primes :: "nat list" where
  "first_primes =
     [2, 3, 5, 7, 11, 13, 17, 19, 23, 29, 31, 37, 41, 43, 47, 53, 59, 61, 67, 71, 73, 79,
      83, 89, 97, 101, 103, 107, 109, 113, 127, 131, 137, 139, 149, 151, 157, 163, 167,
      173, 179, 181, 191, 193, 197, 199, 211, 223, 227, 229, 233, 239, 241, 251, 257, 263,
      269, 271, 277, 281, 283, 293, 307, 311]"

definition sha_K :: "w32 list" where
  "sha_K = map (\<lambda>p. of_nat (iroot 3 (p * 2 ^ 96))) first_primes"

definition sha_H0 :: "w32 list" where
  "sha_H0 = map (\<lambda>p. of_nat (iroot 2 (p * 2 ^ 64))) (take 8 first_primes)"

definition Ch :: "w32 \<Rightarrow> w32 \<Rightarrow> w32 \<Rightarrow> w32" where
  "Ch x y z = (x AND y) XOR (NOT x AND z)"

definition Maj :: "w32 \<Rightarrow> w32 \<Rightarrow> w32 \<Rightarrow> w32" where
  "Maj x y z = (x AND y) XOR (x AND z) XOR (y AND z)"

definition Sigma0 :: "w32 \<Rightarrow> w32" where
  "Sigma0 x = word_rotr 2 x XOR word_rotr 13 x XOR word_rotr 22 x"

definition Sigma1 :: "w32 \<Rightarrow> w32" where
  "Sigma1 x = word_rotr 6 x XOR word_rotr 11 x XOR word_rotr 25 x"

definition sigma0 :: "w32 \<Rightarrow> w32" where
  "sigma0 x = word_rotr 7 x XOR word_rotr 18 x XOR drop_bit 3 x"

definition sigma1 :: "w32 \<Rightarrow> w32" where
  "sigma1 x = word_rotr 17 x XOR word_rotr 19 x XOR drop_bit 10 x"

text \<open>A big-endian word from bytes, and back.\<close>

definition be_word :: "byte list \<Rightarrow> w32" where
  "be_word bs = fold (\<lambda>b w. push_bit 8 w OR ucast b) bs 0"

definition word_bytes :: "w32 \<Rightarrow> byte list" where
  "word_bytes w = [ucast (drop_bit 24 w), ucast (drop_bit 16 w), ucast (drop_bit 8 w), ucast w]"

text \<open>The message, a byte \<open>0x80\<close>, zero bytes up to 56 modulo 64, and the length in bits
  as eight big-endian bytes.\<close>

definition sha_pad :: "byte list \<Rightarrow> byte list" where
  "sha_pad msg =
     (let l = length msg;
          bits = 8 * l
      in msg @ [0x80] @ replicate ((119 - l mod 64) mod 64) 0
         @ map (\<lambda>i. of_nat (bits div 2 ^ (8 * (7 - i)))) [0 ..< 8])"

text \<open>The blocks of 64 bytes of a padded message; \<open>n\<close> is the number of blocks.\<close>

fun blocks :: "nat \<Rightarrow> byte list \<Rightarrow> byte list list" where
  "blocks 0 bs = []"
| "blocks (Suc n) bs = take 64 bs # blocks n (drop 64 bs)"

text \<open>The sixteen words of a block.\<close>

definition block_words :: "byte list \<Rightarrow> w32 list" where
  "block_words b = map (\<lambda>i. be_word (take 4 (drop (4 * i) b))) [0 ..< 16]"

text \<open>The message schedule: the next word from the last sixteen.\<close>

definition extend :: "w32 list \<Rightarrow> w32 list" where
  "extend w =
     (let t = length w
      in w @ [sigma1 (w ! (t - 2)) + w ! (t - 7) + sigma0 (w ! (t - 15)) + w ! (t - 16)])"

definition schedule :: "byte list \<Rightarrow> w32 list" where
  "schedule b = (extend ^^ 48) (block_words b)"

text \<open>One round on the working variables \<open>a \<dots> h\<close>.\<close>

fun sha_round :: "w32 \<times> w32 \<Rightarrow> w32 list \<Rightarrow> w32 list" where
  "sha_round (k, w) [a, b, c, d, e, f, g, h] =
     (let t1 = h + Sigma1 e + Ch e f g + k + w;
          t2 = Sigma0 a + Maj a b c
      in [t1 + t2, a, b, c, d + t1, e, f, g])"
| "sha_round (k, w) v = v"

definition compress :: "w32 list \<Rightarrow> byte list \<Rightarrow> w32 list" where
  "compress hs b = map2 (+) hs (fold sha_round (zip sha_K (schedule b)) hs)"

definition sha256 :: "byte list \<Rightarrow> byte list" where
  "sha256 msg =
     (let padded = sha_pad msg
      in concat (map word_bytes (fold (\<lambda>b hs. compress hs b)
                                   (blocks (length padded div 64) padded) sha_H0)))"

text \<open>HMAC with a block size of 64 bytes: a longer key is hashed first, a shorter one is
  padded with zero bytes.\<close>

definition hmac_sha256 :: "byte list \<Rightarrow> byte list \<Rightarrow> byte list" where
  "hmac_sha256 key0 msg =
     (let key = (if 64 < length key0 then sha256 key0 else key0);
          key = key @ replicate (64 - length key) 0
      in sha256 (map (\<lambda>b. b XOR 0x5C) key @ sha256 (map (\<lambda>b. b XOR 0x36) key @ msg)))"

subsection \<open>The signature\<close>

definition SIGNATURE_KEY :: string where
  "SIGNATURE_KEY = ''key-@@@@)))()((9))-xxxx&&&%%%%%''"

text \<open>\<open>_hmac_sha256_hex\<close>: the key is encoded, then the message.\<close>

definition hmac_sha256_hex :: "unicode \<Rightarrow> unicode \<Rightarrow> encode_error + unicode" where
  "hmac_sha256_hex key message =
     (case utf8 key of
        Inl e \<Rightarrow> Inl e
      | Inr k \<Rightarrow>
          (case utf8 message of
             Inl e \<Rightarrow> Inl e
           | Inr m \<Rightarrow> Inr (code_points (hexdigest (hmac_sha256 k m)))))"


text \<open>Python's order on strings: lexicographic, by code point.\<close>

fun str_less :: "unicode \<Rightarrow> unicode \<Rightarrow> bool" where
  "str_less [] [] = False"
| "str_less [] (b # bs) = True"
| "str_less (a # as) [] = False"
| "str_less (a # as) (b # bs) = (a < b \<or> (a = b \<and> str_less as bs))"

text \<open>\<open>sorted(items, key=lambda kv: kv[0])\<close>: a stable sort by key.\<close>

fun insert_by_key :: "unicode \<times> 'v \<Rightarrow> (unicode \<times> 'v) list \<Rightarrow> (unicode \<times> 'v) list" where
  "insert_by_key x [] = [x]"
| "insert_by_key x (y # ys) =
     (if str_less (fst x) (fst y) then x # y # ys else y # insert_by_key x ys)"

definition sorted_by_key :: "(unicode \<times> 'v) list \<Rightarrow> (unicode \<times> 'v) list" where
  "sorted_by_key items = foldr insert_by_key items []"

definition build_sorted_payload :: "int \<Rightarrow> unicode \<Rightarrow> unicode \<Rightarrow> unicode" where
  "build_sorted_payload timestamp request_id user_id =
     (let items = [(code_points ''timestamp'', code_points (str_int timestamp)),
                   (code_points ''requestId'', request_id),
                   (code_points ''user_id'', user_id)];
          ordered = sorted_by_key items;
          flat = concat (map (\<lambda>(key, v). [key, v]) ordered)
      in join (code_points '','') flat)"





section \<open>Verified properties\<close>

lemmas text_defs = startswith_def endswith_def substr_def split_def strip_def isspace_def

lemmas re_defs = search_def search_from_def match_at_def re_split_def finditer_def
  group_text_def finditer_from.simps

lemmas json_defs = json_loads_def skip_ws_def is_json_ws_def dict_get_def has_key_def
  scan_number_def scan_int_part_def scan_frac_def scan_exp_def is_digit_def ascii_digits_def

lemmas demux_defs = send_message_def handle_line_def handle_data_def handle_choice_def
  handle_completion_def choice_content_def iterate_def think_re_def details_re_def

subsection \<open>The stream demultiplexer\<close>

text \<open>
  Claim C3. The single \<open>choices[].delta.content\<close> fragment
  \<open><think>abc</think>xyz\<close> yields exactly \<open>Thinking "abc"\<close>, \<open>ThinkingEnd\<close>,
  \<open>Content "xyz"\<close>: the opening marker is stripped and switches to thinking, the closing
  marker emits the text before it as thinking and then \<open>ThinkingEnd\<close>, the rest is
  content, and the demultiplexer is left in the answer state.
\<close>

theorem C3_think_fragment:
  "send_message
     [Line ''data: {\"choices\":[{\"delta\":{\"content\":\"<think>abc</think>xyz\"}}]}'']
     = ([Thinking ''abc'', ThinkingEnd, Content ''xyz''], Finished)
   \<and> choice_content False ''<think>abc</think>xyz''
     = ([Thinking ''abc'', ThinkingEnd, Content ''xyz''], False)"
  by (simp add: text_defs re_defs json_defs demux_defs)

text \<open>
  Claim C2, evaluated on the code. A \<open>[DONE]\<close> line that arrives while the
  demultiplexer is thinking yields \<open>Done\<close> alone: the stream ends in \<open>Done\<close> with the
  thinking region still open, and no \<open>ThinkingEnd\<close> is yielded.
\<close>

theorem C2_done_sentinel_while_thinking:
  "send_message
     [Line ''data: {\"choices\":[{\"delta\":{\"content\":\"<think>abc\"}}]}'',
      Line ''data: [DONE]'']
     = ([Thinking ''abc'', Done], Finished)"
  by (simp add: text_defs re_defs json_defs demux_defs)

text \<open>
  Claim C6, evaluated on the code. After an envelope with \<open>phase = done\<close> the loop goes
  on to the next line: the content of a later envelope is still yielded, after \<open>Done\<close>.
\<close>

theorem C6_events_after_phase_done:
  "send_message
     [Line ''data: {\"type\":\"chat:completion\",\"data\":{\"phase\":\"done\"}}'',
      Line ''data: {\"type\":\"chat:completion\",\"data\":{\"phase\":\"answer\",\"delta_content\":\"late\"}}'']
     = ([Done, Content ''late''], Finished)"
  by (simp add: text_defs re_defs json_defs demux_defs)

subsection \<open>Tool-call synthesis and validation\<close>

lemma repair_writeFile:
  "repair_json ''{\"tool\":\"writeFile\",\"arguments\":{\"filepath\":\"a.txt\",\"content\":\"hi\"}}''
  = JObj [(''tool'', JStr ''writeFile''), (''arguments'', JObj [(''filepath'', JStr ''a.txt''), (''content'', JStr ''hi'')])]"
  by (simp add: repair_json_def text_defs json_defs)

lemma normalize_writeFile:
  "normalize_tool_calls [(JStr ''writeFile'', a)] [''write'', ''read''] ps = Inr None"
  by (simp add: normalize_tool_calls_def resolve_call_name_def TOOL_NAME_SYNONYMS_def dict_get_def first_containing_def)

lemma partial_recovers_writeFile:
  "extract_partial_tool_call
     ''{\"tool\":\"writeFile\",\"arguments\":{\"filepath\":\"a.txt\",\"content\":\"hi\"}}''
     [''write'', ''read''] []
   = Some [\<lparr>call_name = ''write'',
             call_arguments = [(''path'', JStr ''a.txt''), (''content'', JStr ''hi'')]\<rparr>]"
proof -
  let ?t = "''{\"tool\":\"writeFile\",\"arguments\":{\"filepath\":\"a.txt\",\"content\":\"hi\"}}''"
  have rep: "replace ?t [CHR 0x5C, CHR 0x22] [CHR 0x22] = ?t"
    by (simp add: startswith_def)
  have low: "lower ?t = ''{\"tool\":\"writefile\",\"arguments\":{\"filepath\":\"a.txt\",\"content\":\"hi\"}}''"
    by (simp add: lower_def lower_char_def ascii_upper_def ascii_lower_def latin_upper_def
          latin_lower_def)
  have fp: "scan_quoted_value ?t ''filepath'' = Some ''a.txt''"
    unfolding scan_quoted_value_def low
    by (simp add: key_sep_re_def re_defs startswith_def isspace_def)
  have ct: "scan_quoted_value ?t ''content'' = Some ''hi''"
    unfolding scan_quoted_value_def low
    by (simp add: key_sep_re_def re_defs startswith_def isspace_def)
  have na: "normalize_args [(''path'', JStr ''a.txt''), (''content'', JStr ''hi'')] None
      = [(''path'', JStr ''a.txt''), (''content'', JStr ''hi'')]"
    by (simp add: normalize_args_def ARG_SYNONYMS_def dict_get_def lower_def lower_char_def
          ascii_upper_def ascii_lower_def latin_upper_def latin_lower_def startswith_def)
  have tn: "List.find (\<lambda>candidate. contains (lower ?t) candidate) partial_candidates = Some ''write''"
    unfolding low by (simp add: partial_candidates_def startswith_def)
  show ?thesis
    unfolding extract_partial_tool_call_def rep Let_def tn
    by (simp add: fp ct na or_else_def TOOL_NAME_SYNONYMS_def dict_get_def rstrip_def
          rstrip_chars_def isspace_def)
qed

text \<open>
  Claim C4, evaluated on the code. With allowed tools \<open>write\<close> and \<open>read\<close>, the
  structured-parse stage returns no call for the model output naming the tool
  \<open>writeFile\<close>, whatever parameters are declared: the name is looked up in the synonym
  table and in the allowed tools as it is spelled, and \<open>writeFile\<close> is in neither. The
  partial-recovery stage that follows, which lower-cases the text, does produce the
  \<open>write\<close> call with \<open>path = a.txt\<close>.
\<close>

theorem C4_writeFile_not_normalized:
  "extract_tool_call
     ''{\"tool\":\"writeFile\",\"arguments\":{\"filepath\":\"a.txt\",\"content\":\"hi\"}}''
     [''write'', ''read''] ps = Inr None
   \<and> extract_partial_tool_call
       ''{\"tool\":\"writeFile\",\"arguments\":{\"filepath\":\"a.txt\",\"content\":\"hi\"}}''
       [''write'', ''read''] []
     = Some [\<lparr>call_name = ''write'',
               call_arguments = [(''path'', JStr ''a.txt''), (''content'', JStr ''hi'')]\<rparr>]"
proof -
  have "extract_tool_call
     ''{\"tool\":\"writeFile\",\"arguments\":{\"filepath\":\"a.txt\",\"content\":\"hi\"}}''
     [''write'', ''read''] ps = Inr None"
    unfolding extract_tool_call_def repair_writeFile
    by (simp add: normalize_writeFile get_or_null_def dict_get_def has_key_def)
  with partial_recovers_writeFile show ?thesis by (rule conjI [rotated])
qed

lemma valid_first_only: "is_valid_write_call u (c # cs) = is_valid_write_call u [c]"
  by (simp add: is_valid_write_call_def)

lemma valid_other_name:
  "call_name c \<notin> {''write'', ''edit'', ''read''} \<Longrightarrow> is_valid_write_call u (c # cs)"
  by (simp add: is_valid_write_call_def)

lemma validate_valid:
  "is_valid_write_call (lower (req_last_user_raw req)) calls \<Longrightarrow>
   validate_and_reply fs req (Some calls) full_text = ToolCallsReply calls"
  by (simp add: validate_and_reply_def Let_def)

lemma norm_write: "normalize_tool_name ''write'' = ''write''"
  by (simp add: normalize_tool_name_def lower_def lower_char_def ascii_upper_def ascii_lower_def latin_upper_def latin_lower_def startswith_def)
lemma norm_edit: "normalize_tool_name ''edit'' = ''edit''"
  by (simp add: normalize_tool_name_def lower_def lower_char_def ascii_upper_def ascii_lower_def latin_upper_def latin_lower_def startswith_def)
lemma norm_read: "normalize_tool_name ''read'' = ''read''"
  by (simp add: normalize_tool_name_def lower_def lower_char_def ascii_upper_def ascii_lower_def latin_upper_def latin_lower_def startswith_def)

lemma resolve_read_not_write:
  "resolve_tool_name ''read'' allowed = Some t \<Longrightarrow> t \<noteq> ''write'' \<and> t \<noteq> ''edit''"
proof (induction allowed)
  case Nil
  then show ?case by simp
next
  case (Cons a allowed)
  show ?case
  proof (cases "a = ''write'' \<or> a = ''edit''")
    case True
    then have "resolve_tool_name ''read'' (a # allowed) = resolve_tool_name ''read'' allowed"
      by (auto simp: norm_write norm_edit norm_read Let_def dict_get_def TOOL_NAME_SYNONYMS_def)
    with Cons show ?thesis by simp
  next
    case False
    with Cons show ?thesis by (auto simp: Let_def split: if_splits)
  qed
qed

lemma fallback_read_name:
  assumes "fallback_read_call fs raw allowed ps = Some calls"
  shows "\<exists>t a. calls = [\<lparr>call_name = t, call_arguments = a\<rparr>] \<and> t \<noteq> ''write'' \<and> t \<noteq> ''edit''"
  using assms
  by (auto simp: fallback_read_call_def Let_def split: option.splits if_splits dest: resolve_read_not_write)

lemma fallback_tool_name:
  assumes "fallback_tool_call u allowed ps = Some calls"
  shows "\<exists>t a. calls = [\<lparr>call_name = t, call_arguments = a\<rparr>] \<and> t \<in> {''glob'', ''ls'', ''list'', ''list_dir''}"
  using assms
  by (auto simp: fallback_tool_call_def Let_def split: option.splits if_splits)

lemma extract_tool_call_empty: "extract_tool_call [] allowed ps = Inr None"
  by (simp add: extract_tool_call_def)

lemma extract_partial_empty: "extract_partial_tool_call [] allowed ps = None"
  by (simp add: extract_partial_tool_call_def)

lemma synthesize_nonempty:
  "synthesize full_text allowed ps = Inr (Some calls) \<Longrightarrow> full_text \<noteq> []"
  by (cases "full_text = []")
     (simp_all add: synthesize_def extract_tool_call_empty extract_partial_empty)

lemma invalid_write:
  assumes nm: "call_name c \<in> {''write'', ''edit''}"
    and bad: "dict_get (call_arguments c) ''content'' = None
       \<or> dict_get (call_arguments c) ''content'' = Some (JStr [])
       \<or> \<not> (\<exists>k \<in> set [''path'', ''filePath'', ''file_path'']. has_key (call_arguments c) k)"
  shows "\<not> is_valid_write_call u (c # cs)"
proof -
  let ?args = "call_arguments c"
  let ?content = "get_or_null ?args ''content''"
  from nm have n1: "\<not> call_name c \<notin> {''write'', ''edit'', ''read''}"
    and n2: "call_name c \<noteq> ''read''" by auto
  have body: "is_valid_write_call u (c # cs) =
      (case ?content of
         JStr content \<Rightarrow>
           if strip content = [] then False
           else if \<not> (\<exists>k \<in> set [''path'', ''filePath'', ''file_path'']. has_key ?args k) then False
           else True
       | _ \<Rightarrow> False)"
    unfolding is_valid_write_call_def Let_def list.case using n1 n2 by (simp only: if_False)
  from bad consider
      (missing) "?content = JNull"
    | (empty) "?content = JStr []"
    | (nopath) "\<not> (\<exists>k \<in> set [''path'', ''filePath'', ''file_path'']. has_key ?args k)"
    by (auto simp: get_or_null_def)
  then show ?thesis
  proof cases
    case missing
    then show ?thesis unfolding body by simp
  next
    case empty
    then show ?thesis unfolding body by (simp add: strip_def)
  next
    case nopath
    then show ?thesis unfolding body by (cases ?content) simp_all
  qed
qed

text \<open>
  Claim C5. When the synthesized list starts with a \<open>write\<close> or \<open>edit\<close> call whose
  \<open>content\<close> is missing or empty, or that has none of the keys \<open>path\<close>,
  \<open>filePath\<close>, \<open>file_path\<close>, validation fails, the handler does not answer with
  that list, and its answer is the one of the following stages: the read fallback if it
  yields a valid call, else the listing fallback (for an actionable request), else the
  buffered text as assistant content.
\<close>

theorem C5_invalid_write_rejected:
  assumes syn: "synthesize full_text (req_allowed_tools req) (req_tool_params req) = Inr (Some (c # cs))"
    and nm: "call_name c \<in> {''write'', ''edit''}"
    and bad: "dict_get (call_arguments c) ''content'' = None
       \<or> dict_get (call_arguments c) ''content'' = Some (JStr [])
       \<or> \<not> (\<exists>k \<in> set [''path'', ''filePath'', ''file_path'']. has_key (call_arguments c) k)"
  shows "\<not> is_valid_write_call (lower (req_last_user_raw req)) (c # cs)
       \<and> tool_reply fs req full_text \<noteq> ToolCallsReply (c # cs)
       \<and> tool_reply fs req full_text =
           (let next_stage =
                  (case (if actionable (req_last_user_raw req)
                         then fallback_tool_call (lower (req_last_user_raw req))
                                (req_allowed_tools req) (req_tool_params req)
                         else None) of
                     Some listing \<Rightarrow> ToolCallsReply listing
                   | None \<Rightarrow> ContentReply full_text)
            in case fallback_read_call fs (req_last_user_raw req) (req_allowed_tools req)
                      (req_tool_params req) of
                 Some repaired \<Rightarrow>
                   if is_valid_write_call (lower (req_last_user_raw req)) repaired
                   then ToolCallsReply repaired else next_stage
               | None \<Rightarrow> next_stage)"
proof -
  let ?u = "lower (req_last_user_raw req)"
  let ?listing = "if actionable (req_last_user_raw req)
                  then fallback_tool_call ?u (req_allowed_tools req) (req_tool_params req)
                  else None"
  let ?next = "case ?listing of Some listing \<Rightarrow> ToolCallsReply listing
               | None \<Rightarrow> ContentReply full_text"
  let ?read = "fallback_read_call fs (req_last_user_raw req) (req_allowed_tools req)
                 (req_tool_params req)"
  have inv: "\<not> is_valid_write_call ?u (c # cs)"
    using invalid_write [OF nm bad] .
  have ne: "full_text \<noteq> []" using synthesize_nonempty [OF syn] .
  have eq: "tool_reply fs req full_text =
      (case ?read of
         Some repaired \<Rightarrow> if is_valid_write_call ?u repaired then ToolCallsReply repaired else ?next
       | None \<Rightarrow> ?next)"
    unfolding tool_reply_def validate_and_reply_def Let_def syn
    using inv ne by (simp split: option.split)
  have nxt: "?next \<noteq> ToolCallsReply (c # cs)"
  proof (cases ?listing)
    case None
    then show ?thesis by simp
  next
    case (Some l)
    then have "fallback_tool_call ?u (req_allowed_tools req) (req_tool_params req) = Some l"
      by (simp split: if_splits)
    from fallback_tool_name [OF this] nm have "l \<noteq> c # cs" by auto
    with Some show ?thesis by simp
  qed
  have neq: "tool_reply fs req full_text \<noteq> ToolCallsReply (c # cs)"
  proof (cases ?read)
    case None
    with eq nxt show ?thesis by simp
  next
    case (Some r)
    from fallback_read_name [OF Some] nm have "r \<noteq> c # cs" by auto
    with eq nxt Some show ?thesis by simp
  qed
  from inv neq eq show ?thesis by (simp add: Let_def)
qed

lemma synthesize_empty_write:
  "synthesize ''{\"tool\":\"write\",\"arguments\":{\"filepath\":\"a.txt\",\"content\":\"\"}}'' [''write'', ''read''] []
   = Inr (Some [\<lparr>call_name = ''write'', call_arguments = [(''filepath'', JStr ''a.txt''), (''path'', JStr ''a.txt''), (''content'', JStr [])]\<rparr>])"
proof -
  have r: "repair_json ''{\"tool\":\"write\",\"arguments\":{\"filepath\":\"a.txt\",\"content\":\"\"}}''
    = JObj [(''tool'', JStr ''write''), (''arguments'', JObj [(''filepath'', JStr ''a.txt''), (''content'', JStr [])])]"
    by (simp add: repair_json_def text_defs json_defs)
  have n: "normalize_args [(''filepath'', JStr ''a.txt''), (''content'', JStr [])] None
     = [(''filepath'', JStr ''a.txt''), (''path'', JStr ''a.txt''), (''content'', JStr [])]"
    by (simp add: normalize_args_def ARG_SYNONYMS_def dict_get_def lower_def lower_char_def
          ascii_upper_def ascii_lower_def latin_upper_def latin_lower_def startswith_def)
  have e: "extract_tool_call ''{\"tool\":\"write\",\"arguments\":{\"filepath\":\"a.txt\",\"content\":\"\"}}'' [''write'', ''read''] []
     = Inr (Some [\<lparr>call_name = ''write'', call_arguments = [(''filepath'', JStr ''a.txt''), (''path'', JStr ''a.txt''), (''content'', JStr [])]\<rparr>])"
    unfolding extract_tool_call_def r
    by (simp add: n normalize_tool_calls_def resolve_call_name_def call_args_def
          TOOL_NAME_SYNONYMS_def get_or_null_def dict_get_def has_key_def)
  show ?thesis unfolding synthesize_def e by simp
qed

theorem C5_invalid_write_rejected_witness:
  "synthesize ''{\"tool\":\"write\",\"arguments\":{\"filepath\":\"a.txt\",\"content\":\"\"}}''
      [''write'', ''read''] []
     = Inr (Some [\<lparr>call_name = ''write'',
                    call_arguments = [(''filepath'', JStr ''a.txt''), (''path'', JStr ''a.txt''),
                                      (''content'', JStr [])]\<rparr>])
   \<and> \<not> is_valid_write_call (lower ''make a.txt'')
         [\<lparr>call_name = ''write'',
           call_arguments = [(''filepath'', JStr ''a.txt''), (''path'', JStr ''a.txt''),
                             (''content'', JStr [])]\<rparr>]
   \<and> tool_reply (\<lambda>p. None)
         \<lparr>req_stream = False, req_allowed_tools = [''write'', ''read''], req_tool_params = [],
          req_last_user_raw = ''make a.txt''\<rparr>
         ''{\"tool\":\"write\",\"arguments\":{\"filepath\":\"a.txt\",\"content\":\"\"}}''
       \<noteq> ToolCallsReply
           [\<lparr>call_name = ''write'',
             call_arguments = [(''filepath'', JStr ''a.txt''), (''path'', JStr ''a.txt''),
                               (''content'', JStr [])]\<rparr>]"
proof -
  let ?text = "''{\"tool\":\"write\",\"arguments\":{\"filepath\":\"a.txt\",\"content\":\"\"}}''"
  let ?req = "\<lparr>req_stream = False, req_allowed_tools = [''write'', ''read''],
               req_tool_params = [], req_last_user_raw = ''make a.txt''\<rparr>"
  let ?call = "\<lparr>call_name = ''write'',
                call_arguments = [(''filepath'', JStr ''a.txt''), (''path'', JStr ''a.txt''),
                                  (''content'', JStr [])]\<rparr>"
  have h1: "synthesize ?text (req_allowed_tools ?req) (req_tool_params ?req) = Inr (Some (?call # []))"
    using synthesize_empty_write by simp
  have h2: "call_name ?call \<in> {''write'', ''edit''}" by simp
  have h3: "dict_get (call_arguments ?call) ''content'' = None
       \<or> dict_get (call_arguments ?call) ''content'' = Some (JStr [])
       \<or> \<not> (\<exists>k \<in> set [''path'', ''filePath'', ''file_path'']. has_key (call_arguments ?call) k)"
    by (simp add: dict_get_def)
  note th = C5_invalid_write_rejected [OF h1 h2 h3, of "\<lambda>p. None"]
  have c: "\<not> is_valid_write_call (lower ''make a.txt'') [?call]"
    using th [THEN conjunct1] by simp
  have d: "tool_reply (\<lambda>p. None) ?req ?text \<noteq> ToolCallsReply [?call]"
    using th [THEN conjunct2, THEN conjunct1] .
  show ?thesis by (rule conjI [OF synthesize_empty_write conjI [OF c d]])
qed

text \<open>
  Claim C10. Validation looks at the first call only. A list whose first call is not
  named \<open>write\<close>, \<open>edit\<close> or \<open>read\<close> is valid whatever the arguments of that call
  and whatever follows it, and the handler answers with the whole list.
\<close>

theorem C10_only_first_call_validated:
  assumes "call_name c \<notin> {''write'', ''edit'', ''read''}"
  shows "is_valid_write_call u (c # cs)
       \<and> is_valid_write_call u (c\<lparr>call_arguments := args\<rparr> # cs)
       \<and> is_valid_write_call u (c # cs) = is_valid_write_call u [c]
       \<and> validate_and_reply fs req (Some (c # cs)) full_text = ToolCallsReply (c # cs)"
  using assms valid_first_only [of u c cs] by (simp add: valid_other_name validate_valid)

theorem C10_only_first_call_validated_witness:
  "call_name \<lparr>call_name = ''glob'', call_arguments = []\<rparr> \<notin> {''write'', ''edit'', ''read''}
   \<and> \<not> is_valid_write_call [] [\<lparr>call_name = ''write'', call_arguments = [(''content'', JStr [])]\<rparr>]
   \<and> is_valid_write_call []
         [\<lparr>call_name = ''glob'', call_arguments = []\<rparr>,
          \<lparr>call_name = ''write'', call_arguments = [(''content'', JStr [])]\<rparr>]
   \<and> validate_and_reply (\<lambda>p. None)
         \<lparr>req_stream = False, req_allowed_tools = [''glob'', ''write''], req_tool_params = [],
          req_last_user_raw = []\<rparr>
         (Some [\<lparr>call_name = ''glob'', call_arguments = []\<rparr>,
                \<lparr>call_name = ''write'', call_arguments = [(''content'', JStr [])]\<rparr>]) ''x''
       = ToolCallsReply
           [\<lparr>call_name = ''glob'', call_arguments = []\<rparr>,
            \<lparr>call_name = ''write'', call_arguments = [(''content'', JStr [])]\<rparr>]"
  using C10_only_first_call_validated [of "\<lparr>call_name = ''glob'', call_arguments = []\<rparr>" "[]"
      "[\<lparr>call_name = ''write'', call_arguments = [(''content'', JStr [])]\<rparr>]" "[]"
      "\<lambda>p. None"
      "\<lparr>req_stream = False, req_allowed_tools = [''glob'', ''write''], req_tool_params = [],
          req_last_user_raw = []\<rparr>" "''x''"]
  by (simp add: is_valid_write_call_def get_or_null_def dict_get_def strip_def)

subsection \<open>The read-intent fallback\<close>

lemma max_by_in: "max_by f b xs \<in> set (b # xs)"
  by (induction xs arbitrary: b) (auto simp: )

lemma match_at_cls:
  "match_at (Cls p) s i = (if i < length s \<and> p (s ! i) then Some (Suc i, Map.empty) else None)"
  by (simp add: match_at_def)

lemma search_aux_cls_none:
  "search_aux (Cls p) s i n = None \<longleftrightarrow> (\<forall>j. i \<le> j \<and> j \<le> i + n \<longrightarrow> \<not> (j < length s \<and> p (s ! j)))"
proof (induction n arbitrary: i)
  case 0
  then show ?case by (auto simp: match_at_cls)
next
  case (Suc n)
  show ?case
  proof (cases "i < length s \<and> p (s ! i)")
    case True
    then show ?thesis by (auto simp: match_at_cls)
  next
    case False
    then have "search_aux (Cls p) s i (Suc n) = search_aux (Cls p) s (Suc i) n"
      by (auto simp: match_at_cls)
    moreover have "(\<forall>j. i \<le> j \<and> j \<le> i + Suc n \<longrightarrow> \<not> (j < length s \<and> p (s ! j)))
        \<longleftrightarrow> (\<forall>j. Suc i \<le> j \<and> j \<le> Suc i + n \<longrightarrow> \<not> (j < length s \<and> p (s ! j)))"
      using False by (metis Suc_leI add_Suc_shift le_eq_less_or_eq Suc_leD add_Suc)
    ultimately show ?thesis using Suc.IH by simp
  qed
qed

lemma search_cls_none: "search (Cls p) s = None \<longleftrightarrow> (\<forall>c \<in> set s. \<not> p c)"
proof -
  have "search (Cls p) s = None \<longleftrightarrow> (\<forall>j. j \<le> length s \<longrightarrow> \<not> (j < length s \<and> p (s ! j)))"
    by (simp add: search_def search_from_def search_aux_cls_none)
  also have "\<dots> \<longleftrightarrow> (\<forall>j < length s. \<not> p (s ! j))"
    using less_imp_le_nat by blast
  also have "\<dots> \<longleftrightarrow> (\<forall>c \<in> set s. \<not> p c)"
    by (metis in_set_conv_nth)
  finally show ?thesis .
qed

text \<open>
  Claim C9. When no cleaned candidate contains a dot, a slash or a backslash, the read
  fallback returns \<open>None\<close>.
\<close>

theorem C9_no_path_like_candidate:
  assumes "\<forall>c \<in> set (clean_candidates (candidates_of user_text_raw)).
             \<forall>ch \<in> set c. ch \<noteq> CHR ''.'' \<and> ch \<noteq> CHR ''/'' \<and> ch \<noteq> CHR 0x5C"
  shows "fallback_read_call fs user_text_raw allowed_tools tool_params_by_name = None"
proof -
  let ?cl = "clean_candidates (candidates_of user_text_raw)"
  have "search path_like_re (max_by score (hd ?cl) (tl ?cl)) = None" if "?cl \<noteq> []"
  proof -
    from that have "max_by score (hd ?cl) (tl ?cl) \<in> set ?cl"
      using max_by_in [of score "hd ?cl" "tl ?cl"] by simp
    with assms show ?thesis
      unfolding path_like_re_def search_cls_none by blast
  qed
  then show ?thesis
    by (auto simp: fallback_read_call_def Let_def split: option.splits)
qed

lemma cand_notes: "clean_candidates (candidates_of ''open `notes` please'') = [''notes'']"
  by (simp add: clean_candidates_def candidates_of_def first_group_def candidate_re_def
        quoted_re_def re_defs finditer_from.simps text_defs strip_chars_def is_path_char_def is_word_def
        is_ascii_alnum_def ascii_upper_def ascii_lower_def ascii_digits_def latin_upper_def latin_lower_def)

theorem C9_no_path_like_candidate_witness:
  "clean_candidates (candidates_of ''open `notes` please'') = [''notes'']
   \<and> fallback_read_call (\<lambda>p. None) ''open `notes` please'' [''write'', ''read''] [] = None"
  using C9_no_path_like_candidate [of "''open `notes` please''" "\<lambda>p. None" "[''write'', ''read'']" "[]"]
  by (simp add: cand_notes)

subsection \<open>Backend errors in the handler\<close>

text \<open>
  Claim C7, evaluated on the code. When the backend call fails, so that the only event is
  the terminal error, \<open>_collect_glm_response\<close> returns the empty string and the
  non-streaming handler answers with empty assistant content; the error reaches the
  caller only in streaming mode.
\<close>

theorem C7_backend_error_empty_content:
  "chat_completions fs
     \<lparr>req_stream = False, req_allowed_tools = [], req_tool_params = ps,
      req_last_user_raw = u\<rparr> [Fault e]
     = ContentReply []
   \<and> collect_glm_response (send_message [Fault e]) = Some []
   \<and> chat_completions fs
       \<lparr>req_stream = True, req_allowed_tools = [], req_tool_params = ps,
        req_last_user_raw = u\<rparr> [Fault e]
     = StreamReply [ErrorPayload e] Finished"
  by (simp add: chat_completions_def collect_glm_response_def stream_glm_response_def
        send_message_def content_parts_def strip_def)

subsection \<open>The request signer\<close>










subsection \<open>Timestamps within one window\<close>

text \<open>
  \<open>str\<close> of an integer determines the integer and contains no \<open>|\<close>, so the text
  that is signed, which ends in \<open>|\<close> and the timestamp, determines the timestamp.
\<close>

lemma digit_val_digit_char: "d < 10 \<Longrightarrow> digit_val (digit_char d) = d"
proof -
  assume "d < 10"
  then have "d \<in> {0, 1, 2, 3, 4, 5, 6, 7, 8, 9}" by auto
  then show ?thesis
    by (auto simp: digit_val_def digit_char_def ascii_digits_def upt_rec numeral_nat)
qed

lemma digit_char_in_digits: "d < 10 \<Longrightarrow> digit_char d \<in> set ascii_digits"
  unfolding digit_char_def by (rule nth_mem) (simp add: ascii_digits_def)

lemma nat_of_digits_snoc:
  "nat_of_digits acc (xs @ [c]) = 10 * nat_of_digits acc xs + digit_val c"
  by (induction xs arbitrary: acc) simp_all

lemma nat_of_digits_str_nat: "nat_of_digits 0 (str_nat n) = n"
proof (induction n rule: str_nat.induct)
  case (1 n)
  show ?case
  proof (cases "n < 10")
    case True
    then show ?thesis by (subst str_nat.simps) (simp add: digit_val_digit_char)
  next
    case False
    with 1 show ?thesis
      by (subst str_nat.simps) (simp add: nat_of_digits_snoc digit_val_digit_char)
  qed
qed

lemma str_nat_digits: "set (str_nat n) \<subseteq> set ascii_digits"
proof (induction n rule: str_nat.induct)
  case (1 n)
  show ?case
  proof (cases "n < 10")
    case True
    then show ?thesis by (subst str_nat.simps) (simp add: digit_char_in_digits)
  next
    case False
    with 1 show ?thesis
      by (subst str_nat.simps) (simp add: digit_char_in_digits)
  qed
qed

lemma str_nat_inj: "str_nat a = str_nat b \<Longrightarrow> a = b"
  by (metis nat_of_digits_str_nat)

lemma str_nat_no_minus: "str_nat n \<noteq> CHR ''-'' # s"
proof
  assume "str_nat n = CHR ''-'' # s"
  then have "CHR ''-'' \<in> set (str_nat n)" by simp
  with str_nat_digits [of n] show False by (auto simp: ascii_digits_def)
qed

lemma str_int_inj: "str_int a = str_int b \<Longrightarrow> a = b"
  by (auto simp: str_int_def str_nat_no_minus str_nat_no_minus [symmetric]
      split: if_splits dest!: str_nat_inj)

lemma str_int_no_bar: "CHR ''|'' \<notin> set (str_int t)"
  using str_nat_digits [of "nat t"] str_nat_digits [of "nat (- t)"]
  by (auto simp: str_int_def ascii_digits_def)

lemma code_points_inj: "code_points a = code_points b \<Longrightarrow> a = b"
  by (simp add: code_points_def inj_map_eq_map [OF inj_of_char])

lemma bar_code_point: "code_points ''|'' = [of_char (CHR ''|'')]"
  by (simp add: code_points_def)

lemma str_int_no_bar_code: "of_char (CHR ''|'') \<notin> set (code_points (str_int t))"
proof
  assume "of_char (CHR ''|'') \<in> set (code_points (str_int t))"
  then obtain x where x: "x \<in> set (str_int t)"
    and eq: "(of_char (CHR ''|'') :: nat) = of_char x"
    unfolding code_points_def set_map by (rule imageE)
  from eq have "CHR ''|'' = x" by (rule of_char_eqI)
  with x str_int_no_bar [of t] show False by simp
qed

lemma last_field_eq:
  assumes "xs @ b # s1 = ys @ b # s2"
    and "b \<notin> set s1" and "b \<notin> set s2"
  shows "s1 = s2"
proof -
  have "takeWhile (\<lambda>c. c \<noteq> b) (rev (zs @ b # s)) = rev s"
    if "b \<notin> set s" for zs s
    using that by (auto simp: takeWhile_tail)
  from this [OF assms(2), of xs] this [OF assms(3), of ys] assms(1)
  show ?thesis by simp
qed

text \<open>
  Two timestamps of the same window of 300000 ms give the same subkey, and two different
  timestamps give different texts to sign under it.
\<close>

lemma same_window_same_subkey:
  "t1 div 300000 = t2 div 300000 \<Longrightarrow>
   hmac_sha256_hex (code_points SIGNATURE_KEY) (code_points (str_int (t1 div 300000)))
     = hmac_sha256_hex (code_points SIGNATURE_KEY) (code_points (str_int (t2 div 300000)))"
  by simp

lemma signing_inputs_differ:
  assumes "t1 \<noteq> t2"
  shows "build_sorted_payload t1 rid uid @ code_points ''|'' @ b64
           @ code_points ''|'' @ code_points (str_int t1)
       \<noteq> build_sorted_payload t2 rid uid @ code_points ''|'' @ b64
           @ code_points ''|'' @ code_points (str_int t2)"
proof
  assume "build_sorted_payload t1 rid uid @ code_points ''|'' @ b64
           @ code_points ''|'' @ code_points (str_int t1)
        = build_sorted_payload t2 rid uid @ code_points ''|'' @ b64
           @ code_points ''|'' @ code_points (str_int t2)"
  then have "(build_sorted_payload t1 rid uid @ code_points ''|'' @ b64)
           @ of_char (CHR ''|'') # code_points (str_int t1)
        = (build_sorted_payload t2 rid uid @ code_points ''|'' @ b64)
           @ of_char (CHR ''|'') # code_points (str_int t2)"
    by (simp only: bar_code_point append_assoc append_Cons append_Nil)
  from last_field_eq [OF this str_int_no_bar_code str_int_no_bar_code]
  have "code_points (str_int t1) = code_points (str_int t2)" .
  then have "str_int t1 = str_int t2" by (rule code_points_inj)
  with assms str_int_inj show False by blast
qed

end
